theory Spec2Isabelle
  imports Complex_Main "HOL-Library.Multiset"
begin

section \<open>JavaScript primitives used by App.tsx\<close>

text \<open>
  Numbers of the source are IEEE doubles; they are modelled as reals, so rounding error,
  NaN and the infinities are outside the model. \<open>undefined\<close> is \<open>None\<close>. The only
  exception the analysed code can raise is a property read on \<open>undefined\<close>.
\<close>

datatype jsError = TypeError

text \<open>\<open>arr[i]\<close> for an integer index: \<open>undefined\<close> outside \<open>0 .. length - 1\<close>.\<close>

definition arrayAt :: "'a list \<Rightarrow> int \<Rightarrow> 'a option" where
  "arrayAt xs i = (if 0 \<le> i \<and> i < int (length xs) then Some (xs ! nat i) else None)"

text \<open>\<open>x || d\<close> for a number-or-undefined \<open>x\<close>: \<open>undefined\<close> and \<open>0\<close> are falsy.\<close>

definition orNum :: "real option \<Rightarrow> real \<Rightarrow> real" where
  "orNum x d = (case x of None \<Rightarrow> d | Some v \<Rightarrow> if v = 0 then d else v)"

text \<open>
  \<open>data.slice(-count)\<close> for a natural \<open>count\<close>: the start index is
  \<open>max (length - count) 0\<close>, and \<open>-0\<close> is \<open>0\<close>, so \<open>count = 0\<close> selects the whole array.
\<close>

definition sliceLast :: "'a list \<Rightarrow> nat \<Rightarrow> 'a list" where
  "sliceLast xs cnt = (if cnt = 0 then xs else drop (length xs - cnt) xs)"

text \<open>\<open>data.slice(0, -count)\<close>: the end index is \<open>max (length - count) 0\<close>, and \<open>0\<close> for \<open>count = 0\<close>.\<close>

definition sliceDropLast :: "'a list \<Rightarrow> nat \<Rightarrow> 'a list" where
  "sliceDropLast xs cnt = (if cnt = 0 then [] else take (length xs - cnt) xs)"

text \<open>\<open>Math.round\<close>: the nearest integer, halves towards plus infinity.\<close>

definition mathRound :: "real \<Rightarrow> int" where
  "mathRound x = \<lfloor>x + 1 / 2\<rfloor>"

subsection \<open>Numbers to text and back\<close>

definition digitChar :: "nat \<Rightarrow> char" where
  "digitChar d = ''0123456789'' ! d"

definition isDigit :: "char \<Rightarrow> bool" where
  "isDigit c = (c \<in> set ''0123456789'')"

text \<open>The value of a digit is its position in the digit string.\<close>

definition digitVal :: "char \<Rightarrow> nat" where
  "digitVal c = length (takeWhile (\<lambda>d. d \<noteq> c) ''0123456789'')"

fun showNat :: "nat \<Rightarrow> string" where
  "showNat n = (if n < 10 then [digitChar n] else showNat (n div 10) @ [digitChar (n mod 10)])"

declare showNat.simps [simp del]

text \<open>The text of an integer-valued number inside a template literal (\<open>-0\<close> prints as \<open>0\<close>).\<close>

definition showInt :: "int \<Rightarrow> string" where
  "showInt i = (if i < 0 then ''-'' @ showNat (nat (- i)) else showNat (nat i))"

text \<open>
  \<open>x.toFixed(1)\<close> and \<open>x.toFixed(0)\<close>: the sign is split off, the magnitude is scaled and
  rounded to the nearest integer (the larger one on a tie). The exponent notation that
  JavaScript switches to from \<open>1e21\<close> on is not modelled.
\<close>

definition toFixed1 :: "real \<Rightarrow> string" where
  "toFixed1 x =
     (let s = (if x < 0 then ''-'' else '''');
          n = nat \<lfloor>\<bar>x\<bar> * 10 + 1 / 2\<rfloor>
      in s @ showNat (n div 10) @ ''.'' @ [digitChar (n mod 10)])"

definition toFixed0 :: "real \<Rightarrow> string" where
  "toFixed0 x =
     (let s = (if x < 0 then ''-'' else '''');
          n = nat \<lfloor>\<bar>x\<bar> + 1 / 2\<rfloor>
      in s @ showNat n)"

text \<open>\<open>s.includes(c)\<close> and \<open>s.replace(c, '')\<close> for a one-character pattern.\<close>

definition strIncludes :: "string \<Rightarrow> char \<Rightarrow> bool" where
  "strIncludes s c = (c \<in> set s)"

definition replaceFirst :: "string \<Rightarrow> char \<Rightarrow> string" where
  "replaceFirst s c = remove1 c s"

definition digitsValue :: "string \<Rightarrow> nat" where
  "digitsValue ds = foldl (\<lambda>a c. 10 * a + digitVal c) 0 ds"

text \<open>
  \<open>parseFloat\<close>: an optional sign, decimal digits, an optional point and more digits; the
  longest such prefix is read and \<open>None\<close> stands for NaN. Leading white space, an
  exponent part and the word Infinity are not modelled: the argument in this program is
  the output of \<open>toFixed\<close>, which holds digits, a point and a minus sign only.
\<close>

definition parseFloat :: "string \<Rightarrow> real option" where
  "parseFloat s =
     (let neg = (case s of [] \<Rightarrow> False | c # r \<Rightarrow> c = CHR ''-'');
          body = (case s of [] \<Rightarrow> [] | c # r \<Rightarrow> if c = CHR ''-'' \<or> c = CHR ''+'' then r else s);
          ip = takeWhile isDigit body;
          rest = dropWhile isDigit body;
          fp = (case rest of [] \<Rightarrow> [] | c # r \<Rightarrow> if c = CHR ''.'' then takeWhile isDigit r else [])
      in if ip = [] \<and> fp = [] then None
         else let v = real (digitsValue ip) + real (digitsValue fp) / 10 ^ length fp
              in Some (if neg then - v else v))"

section \<open>Telemetry records\<close>

text \<open>
  The sample types of \<open>types.ts\<close>, as the code reads them and the specification
  (section 3) lists them. The field \<open>class\<close> of a flare sample is named \<open>flareClass\<close> here.
\<close>

record KpDataPoint =
  time :: string
  kp :: real

record WindDataPoint =
  time :: string
  speed :: real
  density :: real

record FlareDataPoint =
  time :: string
  flux :: real
  flareClass :: string

record ProtonDataPoint =
  time :: string
  flux :: real

record ForecastDataPoint =
  time :: string
  kp :: real

record ExtendedFlare = FlareDataPoint +
  isSignificant :: bool

section \<open>Windowed average (getAverage, App.tsx lines 77-82)\<close>

text \<open>
  \<open>data\<close> is \<open>any[]\<close> and \<open>curr[key]\<close> a dynamic property read, so the key is an accessor
  that may answer \<open>undefined\<close>. For a natural \<open>count\<close> the slice of a non-empty array is
  non-empty, so the division is by a positive length.
\<close>

definition getAverage :: "'a list \<Rightarrow> ('a \<Rightarrow> real option) \<Rightarrow> nat \<Rightarrow> real" where
  "getAverage data key cnt =
     (if data = [] then 0
      else let slice = sliceLast data cnt;
               sum = foldl (\<lambda>acc curr. acc + orNum (key curr) 0) 0 slice
           in sum / real (length slice))"

definition speedKey :: "WindDataPoint \<Rightarrow> real option" where
  "speedKey w = Some (speed w)"

definition flareFluxKey :: "FlareDataPoint \<Rightarrow> real option" where
  "flareFluxKey f = Some (FlareDataPoint.flux f)"

definition protonFluxKey :: "ProtonDataPoint \<Rightarrow> real option" where
  "protonFluxKey p = Some (ProtonDataPoint.flux p)"

section \<open>Flare classifier\<close>

text \<open>
  Modelled from the spec: \<open>getFlareClass\<close> of \<open>services/noaaService\<close>, which is not among
  the sources. Section 6 of the specification gives it: below \<open>1e-7\<close> the letter is A,
  below \<open>1e-6\<close> B, below \<open>1e-5\<close> C, below \<open>1e-4\<close> M, else X; the mantissa is the flux divided
  by the power of ten of its decade, formatted to one decimal.
\<close>

datatype flareLetter = LA | LB | LC | LM | LX

definition letterChar :: "flareLetter \<Rightarrow> char" where
  "letterChar l = (case l of LA \<Rightarrow> CHR ''A'' | LB \<Rightarrow> CHR ''B'' | LC \<Rightarrow> CHR ''C''
                    | LM \<Rightarrow> CHR ''M'' | LX \<Rightarrow> CHR ''X'')"

definition classLetter :: "real \<Rightarrow> flareLetter" where
  "classLetter fl =
     (if fl < 1 / 10 ^ 7 then LA else if fl < 1 / 10 ^ 6 then LB
      else if fl < 1 / 10 ^ 5 then LC else if fl < 1 / 10 ^ 4 then LM else LX)"

definition classMantissa :: "real \<Rightarrow> real" where
  "classMantissa fl =
     (case classLetter fl of LA \<Rightarrow> fl * 10 ^ 8 | LB \<Rightarrow> fl * 10 ^ 7 | LC \<Rightarrow> fl * 10 ^ 6
        | LM \<Rightarrow> fl * 10 ^ 5 | LX \<Rightarrow> fl * 10 ^ 4)"

definition classString :: "flareLetter \<Rightarrow> real \<Rightarrow> string" where
  "classString l m = letterChar l # toFixed1 m"

definition getFlareClass :: "real \<Rightarrow> string" where
  "getFlareClass fl = classString (classLetter fl) (classMantissa fl)"

section \<open>Report text\<close>

text \<open>
  The report is Russian text. Each fixed piece of a template is a constructor of
  \<open>phrase\<close>, named after its place in analyzeData, and holds the blanks that adjoin
  it in the template; the computed pieces (numbers, the word undefined, a blank between
  two computed pieces) are strings. \<open>PARA\<close> is the separator of \<open>parts.join\<close>, two line
  feeds.
\<close>

datatype phrase =
    TREND_RISING      \<comment> \<open>line 219: a tendency towards stronger disturbances\<close>
  | TREND_FALLING     \<comment> \<open>line 220: a decline of activity\<close>
  | TREND_STABLE      \<comment> \<open>line 221: the situation is stable\<close>
  | ST_G3_HEAD | ST_G3_A | ST_G3_B | ST_G3_TAIL          \<comment> \<open>line 224: strong storm (G3)\<close>
  | ST_G12_HEAD | ST_G12_A | ST_G12_B | ST_G12_TAIL      \<comment> \<open>line 226: moderate storm (G1-G2)\<close>
  | ST_K4_HEAD | ST_K4_A | ST_K4_B | ST_K4_TAIL          \<comment> \<open>line 228: excited magnetosphere\<close>
  | ST_UNS_HEAD | ST_UNS_A | ST_UNS_B | ST_UNS_TAIL      \<comment> \<open>line 230: unsettled field\<close>
  | ST_CALM_HEAD | ST_CALM_A | ST_CALM_B | ST_CALM_C | ST_CALM_TAIL   \<comment> \<open>line 232: calm\<close>
  | WIND_RISING       \<comment> \<open>line 240: the flow speed grows sharply\<close>
  | WIND_FALLING      \<comment> \<open>line 241: the wind speed decreases\<close>
  | WIND_STABLE       \<comment> \<open>line 242: the flow speed is stable\<close>
  | SRC_CH            \<comment> \<open>line 248: sign of a coronal-hole high-speed stream (CH HSS)\<close>
  | SRC_CME           \<comment> \<open>line 249: probably a coronal mass ejection (CME)\<close>
  | DYN_HEAD          \<comment> \<open>lines 252, 254: the section label\<close>
  | DYN_BLOCK_PRE | DYN_BLOCK_POST      \<comment> \<open>line 252: the field (Bz North) blocks the energy\<close>
  | DYN_PRESS_PRE | DYN_PRESS_POST      \<comment> \<open>line 254: the plasma flow presses on the magnetosphere\<close>
  | DYN_BG_PRE | DYN_BG_MID | DYN_BG_POST   \<comment> \<open>line 258: wind parameters near background\<close>
  | FC_RISE_PRE | FC_RISE_A | FC_RISE_B | FC_RISE_POST            \<comment> \<open>line 265: activity will rise\<close>
  | FC_DECL_PRE | FC_DECL_A | FC_DECL_B | FC_DECL_C | FC_DECL_POST \<comment> \<open>line 267: stabilisation, decline\<close>
  | FC_NOCHANGE       \<comment> \<open>line 269: no significant change expected\<close>
  | PHYS_X            \<comment> \<open>line 276: a strong X-ray burst (class X)\<close>
  | PHYS_PROTON_PRE | PHYS_PROTON_POST  \<comment> \<open>line 278: a proton event (S-scale)\<close>
  | PHYS_BG           \<comment> \<open>line 280: radiation at background values\<close>
  | SYNCHRONIZING     \<comment> \<open>line 101: the report before the first analysis\<close>
  | PARA              \<comment> \<open>line 284: the separator of join\<close>

datatype frag = Lit phrase | Dyn string

text \<open>
  \<open>pick\<close> (line 85) with the random number made a parameter: \<open>r\<close> is the value of
  \<open>Math.random()\<close>. An index outside the array reads \<open>undefined\<close>, which a template
  prints as that word.
\<close>

definition pick :: "real \<Rightarrow> phrase list \<Rightarrow> frag" where
  "pick r options =
     (case arrayAt options \<lfloor>r * real (length options)\<rfloor> of
        None \<Rightarrow> Dyn ''undefined'' | Some p \<Rightarrow> Lit p)"

section \<open>The analysis (analyzeData, App.tsx lines 166-285)\<close>

subsection \<open>Data snapshots, lines 174-184\<close>

definition lastKp :: "KpDataPoint list \<Rightarrow> real" where
  "lastKp ks = orNum (map_option KpDataPoint.kp (arrayAt ks (int (length ks) - 1))) 0"

definition prevKp :: "KpDataPoint list \<Rightarrow> real" where
  "prevKp ks = orNum (map_option KpDataPoint.kp (arrayAt ks (int (length ks) - 2))) (lastKp ks)"

definition avgWind :: "WindDataPoint list \<Rightarrow> real" where
  "avgWind ws = getAverage ws speedKey 6"

definition prevWind :: "WindDataPoint list \<Rightarrow> real" where
  "prevWind ws = orNum (Some (getAverage (sliceDropLast ws 6) speedKey 6)) (avgWind ws)"

definition avgFlux :: "FlareDataPoint list \<Rightarrow> real" where
  "avgFlux fs = getAverage fs flareFluxKey 12"

definition avgProton :: "ProtonDataPoint list \<Rightarrow> real" where
  "avgProton ps = getAverage ps protonFluxKey 6"

definition avgFlareClass :: "FlareDataPoint list \<Rightarrow> string" where
  "avgFlareClass fs = getFlareClass (avgFlux fs)"

text \<open>\<open>forecast[1].kp\<close> raises when \<open>forecast[1]\<close> is \<open>undefined\<close>; the length test guards it.\<close>

definition nextForecastKp :: "ForecastDataPoint list \<Rightarrow> real \<Rightarrow> jsError + real" where
  "nextForecastKp fc lkp =
     (if length fc > 1
      then (case arrayAt fc 1 of None \<Rightarrow> Inl TypeError | Some f \<Rightarrow> Inr (ForecastDataPoint.kp f))
      else Inr lkp)"

subsection \<open>Danger score, lines 186-209\<close>

datatype dangerLabel = LOADING | BACKGROUND | MODERATE | HIGH

record DangerIndex =
  score :: int
  label :: dangerLabel
  colorClass :: string

text \<open>The variable \<open>score\<close> starts at 0 and is increased by three cascades in turn.\<close>

definition dangerScore :: "real \<Rightarrow> real \<Rightarrow> string \<Rightarrow> int" where
  "dangerScore lkp aw cls =
     (let sc = (0::int);
          sc = (if lkp \<ge> 7 then sc + 4 else if lkp \<ge> 5 then sc + 3
                else if lkp \<ge> 4 then sc + 2 else if lkp \<ge> 3 then sc + 1 else sc);
          sc = (if aw \<ge> 700 then sc + 3 else if aw \<ge> 500 then sc + 2
                else if aw \<ge> 400 then sc + 1 else sc);
          sc = (if strIncludes cls CHR ''X'' then sc + 3
                else if strIncludes cls CHR ''M'' then
                  (case parseFloat (replaceFirst cls CHR ''M'') of
                     None \<Rightarrow> sc + 1
                   | Some v \<Rightarrow> if v \<ge> 5 then sc + 2 else sc + 1)
                else sc)
      in sc)"

text \<open>The third cascade of the score (lines 197-202) taken alone, on the class string.\<close>

definition flarePart :: "string \<Rightarrow> int" where
  "flarePart cls =
     (if strIncludes cls CHR ''X'' then 3
      else if strIncludes cls CHR ''M'' then
        (case parseFloat (replaceFirst cls CHR ''M'') of
           None \<Rightarrow> 1
         | Some v \<Rightarrow> if v \<ge> 5 then 2 else 1)
      else 0)"

definition dangerIndexOf :: "int \<Rightarrow> DangerIndex" where
  "dangerIndexOf sc =
     (if sc \<ge> 5 then \<lparr>score = sc, label = HIGH, colorClass = ''text-[#ff1744]''\<rparr>
      else if sc \<ge> 3 then \<lparr>score = sc, label = MODERATE, colorClass = ''text-[#ffca28]''\<rparr>
      else \<lparr>score = sc, label = BACKGROUND, colorClass = ''text-[#00e676]''\<rparr>)"

subsection \<open>Section 1: status and trend, lines 213-234\<close>

definition trendDesc :: "real \<Rightarrow> real \<Rightarrow> phrase" where
  "trendDesc lkp pkp =
     (let kpTrend = lkp - pkp
      in if kpTrend > 0 then TREND_RISING else if kpTrend < 0 then TREND_FALLING
         else TREND_STABLE)"

definition statusText :: "real \<Rightarrow> real \<Rightarrow> phrase \<Rightarrow> frag list" where
  "statusText r lkp td =
     (if lkp \<ge> 7 then
        [Lit ST_G3_HEAD, pick r [ST_G3_A, ST_G3_B], Dyn '' '', Lit td, Lit ST_G3_TAIL]
      else if lkp \<ge> 5 then
        [Lit ST_G12_HEAD, pick r [ST_G12_A, ST_G12_B], Dyn '' '', Lit td, Lit ST_G12_TAIL]
      else if lkp \<ge> 4 then
        [Lit ST_K4_HEAD, pick r [ST_K4_A, ST_K4_B], Dyn '' '', Lit td, Lit ST_K4_TAIL]
      else if lkp \<ge> 3 then
        [Lit ST_UNS_HEAD, pick r [ST_UNS_A, ST_UNS_B], Dyn '' '', Lit td, Lit ST_UNS_TAIL]
      else
        [Lit ST_CALM_HEAD, pick r [ST_CALM_A, ST_CALM_B, ST_CALM_C], Lit ST_CALM_TAIL])"

subsection \<open>Section 2: dynamics, lines 236-260\<close>

definition windTrend :: "real \<Rightarrow> real \<Rightarrow> phrase" where
  "windTrend aw pw =
     (let windDiff = aw - pw
      in if windDiff > 50 then WIND_RISING else if windDiff < - 50 then WIND_FALLING
         else WIND_STABLE)"

definition sourceNote :: "real \<Rightarrow> phrase" where
  "sourceNote ap = (if ap < 10 then SRC_CH else SRC_CME)"

text \<open>
  Line 258 reads the density from \<open>windData\<close>, the state variable of the component, not
  from the parameter \<open>wind\<close>; \<open>wd\<close> is that state. The optional chain answers
  \<open>undefined\<close> for an empty array.
\<close>

definition dynText :: "WindDataPoint list \<Rightarrow> real \<Rightarrow> real \<Rightarrow> real \<Rightarrow> real \<Rightarrow> frag list" where
  "dynText wd aw pw ap lkp =
     (if aw \<ge> 500 then
        (if lkp < 4 then
           [Lit DYN_HEAD, Lit (sourceNote ap), Dyn '' '', Lit (windTrend aw pw),
            Lit DYN_BLOCK_PRE, Dyn (showInt (mathRound aw)), Lit DYN_BLOCK_POST]
         else
           [Lit DYN_HEAD, Lit (sourceNote ap), Dyn '' '', Lit (windTrend aw pw),
            Lit DYN_PRESS_PRE, Dyn (showInt (mathRound aw)), Lit DYN_PRESS_POST])
      else
        [Lit DYN_BG_PRE, Dyn (showInt (mathRound aw)), Lit DYN_BG_MID,
         Dyn (case arrayAt wd (int (length wd) - 1) of
                None \<Rightarrow> ''undefined'' | Some w \<Rightarrow> toFixed1 (density w)),
         Lit DYN_BG_POST, Lit (windTrend aw pw)])"

subsection \<open>Section 3: forecast, lines 262-271\<close>

definition forecastText :: "real \<Rightarrow> real \<Rightarrow> real \<Rightarrow> frag list" where
  "forecastText r nf lkp =
     (if nf > lkp then
        [Lit FC_RISE_PRE, pick r [FC_RISE_A, FC_RISE_B], Lit FC_RISE_POST]
      else if nf < lkp \<and> lkp \<ge> 4 then
        [Lit FC_DECL_PRE, pick r [FC_DECL_A, FC_DECL_B, FC_DECL_C], Lit FC_DECL_POST]
      else [Lit FC_NOCHANGE])"

subsection \<open>Section 4: physics and radiation, lines 273-282\<close>

text \<open>Line 278 reads \<open>protonData\<close>, the state variable, not the parameter; \<open>pd\<close> is that state.\<close>

definition physText :: "ProtonDataPoint list \<Rightarrow> string \<Rightarrow> real \<Rightarrow> frag list" where
  "physText pd cls ap =
     (if strIncludes cls CHR ''X'' then [Lit PHYS_X]
      else if ap \<ge> 10 then
        [Lit PHYS_PROTON_PRE,
         Dyn (case arrayAt pd (int (length pd) - 1) of
                None \<Rightarrow> ''undefined'' | Some p \<Rightarrow> toFixed0 (ProtonDataPoint.flux p)),
         Lit PHYS_PROTON_POST]
      else [Lit PHYS_BG])"

subsection \<open>The component state and analyzeData\<close>

record AppState =
  kpData :: "KpDataPoint list"
  windData :: "WindDataPoint list"
  flareData :: "FlareDataPoint list"
  forecastData :: "ForecastDataPoint list"
  protonData :: "ProtonDataPoint list"
  detectedFlares :: "ExtendedFlare list"
  report :: "frag list"
  dangerIndex :: DangerIndex

definition initialState :: AppState where
  "initialState =
     \<lparr>kpData = [], windData = [], flareData = [], forecastData = [], protonData = [],
      detectedFlares = [], report = [Lit SYNCHRONIZING],
      dangerIndex = \<lparr>score = 0, label = LOADING, colorClass = ''text-gray-500''\<rparr>\<rparr>"

text \<open>\<open>parts.join("\n\n")\<close>.\<close>

fun joinParts :: "frag list list \<Rightarrow> frag list" where
  "joinParts [] = []"
| "joinParts [p] = p"
| "joinParts (p # q # ps) = p @ [Lit PARA] @ joinParts (q # ps)"

text \<open>
  The four sections in the order they are pushed. \<open>rnd i\<close> is the value of the
  \<open>i\<close>-th call of \<open>Math.random\<close> in one run: every branch of the status section calls
  \<open>pick\<close> once, so the forecast section makes the second call when it makes one.
  \<open>st\<close> is the state that the closure sees.
\<close>

definition reportParts ::
  "AppState \<Rightarrow> (nat \<Rightarrow> real) \<Rightarrow> KpDataPoint list \<Rightarrow> WindDataPoint list \<Rightarrow> FlareDataPoint list \<Rightarrow>
     ProtonDataPoint list \<Rightarrow> ForecastDataPoint list \<Rightarrow> jsError + frag list list" where
  "reportParts st rnd ks ws fs ps fc =
     (case nextForecastKp fc (lastKp ks) of
        Inl e \<Rightarrow> Inl e
      | Inr nf \<Rightarrow>
          Inr [statusText (rnd 0) (lastKp ks) (trendDesc (lastKp ks) (prevKp ks)),
               dynText (windData st) (avgWind ws) (prevWind ws) (avgProton ps) (lastKp ks),
               forecastText (rnd 1) nf (lastKp ks),
               physText (protonData st) (avgFlareClass fs) (avgProton ps)])"

text \<open>The result is the pair of the values handed to \<open>setDangerIndex\<close> and \<open>setReport\<close>.\<close>

definition analyzeData ::
  "AppState \<Rightarrow> (nat \<Rightarrow> real) \<Rightarrow> KpDataPoint list \<Rightarrow> WindDataPoint list \<Rightarrow> FlareDataPoint list \<Rightarrow>
     ProtonDataPoint list \<Rightarrow> ForecastDataPoint list \<Rightarrow> jsError + DangerIndex \<times> frag list" where
  "analyzeData st rnd ks ws fs ps fc =
     (case reportParts st rnd ks ws fs ps fc of
        Inl e \<Rightarrow> Inl e
      | Inr parts \<Rightarrow>
          Inr (dangerIndexOf (dangerScore (lastKp ks) (avgWind ws) (avgFlareClass fs)),
               joinParts parts))"

section \<open>Flare peaks and the polling step (loadData, App.tsx lines 107-146)\<close>

definition threshold :: real where
  "threshold = 1 / 10 ^ 8"

text \<open>
  The loop of lines 128-140, from \<open>i\<close> on, with the array \<open>peaks\<close> built so far. A read
  of \<open>.flux\<close> on an absent element would raise.
\<close>

function peaksLoop ::
  "FlareDataPoint list \<Rightarrow> nat \<Rightarrow> ExtendedFlare list \<Rightarrow> jsError + ExtendedFlare list" where
  "peaksLoop fs i peaks =
     (if int i < int (length fs) - 1 then
        (case arrayAt fs (int i - 1) of
           None \<Rightarrow> Inl TypeError
         | Some p \<Rightarrow>
             (case arrayAt fs (int i) of
                None \<Rightarrow> Inl TypeError
              | Some c \<Rightarrow>
                  (case arrayAt fs (int i + 1) of
                     None \<Rightarrow> Inl TypeError
                   | Some n \<Rightarrow>
                       (let prev = FlareDataPoint.flux p;
                            curr = FlareDataPoint.flux c;
                            next = FlareDataPoint.flux n
                        in if curr > prev \<and> curr > next \<and> curr > threshold
                           then peaksLoop fs (i + 1)
                                  (peaks @ [\<lparr>FlareDataPoint.time = FlareDataPoint.time c,
                                             FlareDataPoint.flux = FlareDataPoint.flux c,
                                             flareClass = flareClass c,
                                             isSignificant = (curr \<ge> 1 / 10 ^ 6)\<rparr>])
                           else peaksLoop fs (i + 1) peaks))))
      else Inr peaks)"
  by pat_completeness auto
termination
  by (relation "measure (\<lambda>(fs, i, peaks). length fs - i)") auto

declare peaksLoop.simps [simp del]

text \<open>
  Lines 125-143. \<open>ms t\<close> stands for \<open>new Date(t).getTime()\<close> on a valid date string.
  \<open>Array.prototype.sort\<close> is stable; the comparator \<open>ms b - ms a\<close> orders by descending
  time, which is ascending order of the negated time.
\<close>

definition detectFlares ::
  "(string \<Rightarrow> int) \<Rightarrow> FlareDataPoint list \<Rightarrow> jsError + ExtendedFlare list" where
  "detectFlares ms fs =
     (case peaksLoop fs 1 [] of
        Inl e \<Rightarrow> Inl e
      | Inr peaks \<Rightarrow> Inr (sort_key (\<lambda>p. - ms (FlareDataPoint.time p)) peaks))"

text \<open>The answer of \<open>fetchSolarData\<close>; \<open>forecast\<close> and \<open>protons\<close> may be absent (lines 120-122).\<close>

record FetchResult =
  kp :: "KpDataPoint list"
  wind :: "WindDataPoint list"
  flares :: "FlareDataPoint list"
  forecast :: "ForecastDataPoint list option"
  protons :: "ProtonDataPoint list option"
  isDemo :: bool

definition orEmpty :: "'a list option \<Rightarrow> 'a list" where
  "orEmpty x = (case x of None \<Rightarrow> [] | Some xs \<Rightarrow> xs)"

text \<open>
  One run of loadData on a visible page, after the fetch has answered. \<open>st\<close> is the
  state of the render that created the closure: the setters do not change what
  analyzeData reads from it. The result is the state after all setters have taken
  effect; the flags \<open>loading\<close> and \<open>fetchError\<close> are left out.
\<close>

definition loadData ::
  "(string \<Rightarrow> int) \<Rightarrow> (nat \<Rightarrow> real) \<Rightarrow> AppState \<Rightarrow> FetchResult \<Rightarrow> jsError + AppState" where
  "loadData ms rnd st result =
     (case analyzeData st rnd (FetchResult.kp result) (wind result) (flares result)
             (orEmpty (protons result)) (orEmpty (forecast result)) of
        Inl e \<Rightarrow> Inl e
      | Inr (di, rep) \<Rightarrow>
          (case detectFlares ms (flares result) of
             Inl e \<Rightarrow> Inl e
           | Inr sortedPeaks \<Rightarrow>
               Inr (st\<lparr>kpData := FetchResult.kp result, windData := wind result,
                       flareData := flares result,
                       forecastData := orEmpty (forecast result),
                       protonData := orEmpty (protons result),
                       detectedFlares := sortedPeaks, report := rep, dangerIndex := di\<rparr>)))"

section \<open>Values derived at render time (App.tsx lines 287-328)\<close>

definition currentKp :: "AppState \<Rightarrow> real" where
  "currentKp st =
     orNum (map_option KpDataPoint.kp (arrayAt (kpData st) (int (length (kpData st)) - 1))) 0"

definition currentWind :: "AppState \<Rightarrow> real" where
  "currentWind st =
     orNum (map_option speed (arrayAt (windData st) (int (length (windData st)) - 1))) 0"

definition currentProtonFlux :: "AppState \<Rightarrow> real" where
  "currentProtonFlux st =
     orNum (map_option ProtonDataPoint.flux
              (arrayAt (protonData st) (int (length (protonData st)) - 1))) 0"

text \<open>Line 295: an absent sample and an empty class string are falsy.\<close>

definition currentFlareClass :: "AppState \<Rightarrow> string" where
  "currentFlareClass st =
     (case arrayAt (flareData st) (int (length (flareData st)) - 1) of
        None \<Rightarrow> ''A0.0''
      | Some f \<Rightarrow> if flareClass f = [] then ''A0.0'' else flareClass f)"

definition isHighWind :: "AppState \<Rightarrow> bool" where
  "isHighWind st = (currentWind st > 500)"

definition isProtonStorm :: "AppState \<Rightarrow> bool" where
  "isProtonStorm st = (currentProtonFlux st \<ge> 10)"

definition isCoronalHoleSource :: "AppState \<Rightarrow> bool" where
  "isCoronalHoleSource st = (isHighWind st \<and> \<not> isProtonStorm st)"

definition isCMESource :: "AppState \<Rightarrow> bool" where
  "isCMESource st = (isHighWind st \<and> isProtonStorm st)"

definition significantFlaresList :: "AppState \<Rightarrow> ExtendedFlare list" where
  "significantFlaresList st = filter isSignificant (detectedFlares st)"

section \<open>Notions of the specification\<close>

text \<open>
  What the specification speaks of, stated in its own words, to be compared with the
  code above.
\<close>

subsection \<open>Windowed aggregator (specification 4.1)\<close>

definition lastN :: "nat \<Rightarrow> 'a list \<Rightarrow> 'a list" where
  "lastN n xs = drop (length xs - n) xs"

definition keyValue :: "('a \<Rightarrow> real option) \<Rightarrow> 'a \<Rightarrow> real" where
  "keyValue key x = (case key x of None \<Rightarrow> 0 | Some v \<Rightarrow> v)"

definition meanOf :: "('a \<Rightarrow> real option) \<Rightarrow> 'a list \<Rightarrow> real" where
  "meanOf key xs = sum_list (map (keyValue key) xs) / real (length xs)"

definition truthy :: "('a \<Rightarrow> real option) \<Rightarrow> 'a \<Rightarrow> bool" where
  "truthy key x = (case key x of None \<Rightarrow> False | Some v \<Rightarrow> v \<noteq> 0)"

text \<open>The mean that would result if the samples with a falsy key field were skipped.\<close>

definition skipMean :: "('a \<Rightarrow> real option) \<Rightarrow> 'a list \<Rightarrow> real" where
  "skipMean key xs = meanOf key (filter (truthy key) xs)"

subsection \<open>Danger scorer (specification 4.5)\<close>

definition kpContribution :: "real \<Rightarrow> int" where
  "kpContribution k = (if k \<ge> 7 then 4 else if k \<ge> 5 then 3 else if k \<ge> 4 then 2
                       else if k \<ge> 3 then 1 else 0)"

definition windContribution :: "real \<Rightarrow> int" where
  "windContribution v = (if v \<ge> 700 then 3 else if v \<ge> 500 then 2 else if v \<ge> 400 then 1 else 0)"

text \<open>The mantissa as the class string shows it: rounded to one decimal.\<close>

definition shownMantissa :: "real \<Rightarrow> real" where
  "shownMantissa m = real_of_int \<lfloor>m * 10 + 1 / 2\<rfloor> / 10"

definition flareContribution :: "flareLetter \<Rightarrow> real \<Rightarrow> int" where
  "flareContribution l m =
     (case l of LX \<Rightarrow> 3 | LM \<Rightarrow> (if shownMantissa m \<ge> 5 then 2 else 1) | _ \<Rightarrow> 0)"

definition letterRank :: "flareLetter \<Rightarrow> nat" where
  "letterRank l = (case l of LA \<Rightarrow> 0 | LB \<Rightarrow> 1 | LC \<Rightarrow> 2 | LM \<Rightarrow> 3 | LX \<Rightarrow> 4)"

definition labelFor :: "int \<Rightarrow> dangerLabel" where
  "labelFor sc = (if sc \<ge> 5 then HIGH else if sc \<ge> 3 then MODERATE else BACKGROUND)"

subsection \<open>Flare peak detector (specification 4.2)\<close>

definition isPeakAt :: "FlareDataPoint list \<Rightarrow> nat \<Rightarrow> bool" where
  "isPeakAt fs i =
     (FlareDataPoint.flux (fs ! i) > FlareDataPoint.flux (fs ! (i - 1)) \<and>
      FlareDataPoint.flux (fs ! i) > FlareDataPoint.flux (fs ! (i + 1)) \<and>
      FlareDataPoint.flux (fs ! i) > 1 / 10 ^ 8)"

definition tagFlare :: "FlareDataPoint \<Rightarrow> ExtendedFlare" where
  "tagFlare f =
     \<lparr>FlareDataPoint.time = FlareDataPoint.time f, FlareDataPoint.flux = FlareDataPoint.flux f,
      flareClass = flareClass f, isSignificant = (FlareDataPoint.flux f \<ge> 1 / 10 ^ 6)\<rparr>"

text \<open>The interior local maxima above the noise threshold, in series order.\<close>

definition interiorPeaks :: "FlareDataPoint list \<Rightarrow> ExtendedFlare list" where
  "interiorPeaks fs = map (\<lambda>i. tagFlare (fs ! i)) (filter (isPeakAt fs) [1..<length fs - 1])"

definition mostRecentFirst :: "(string \<Rightarrow> int) \<Rightarrow> ExtendedFlare list \<Rightarrow> bool" where
  "mostRecentFirst ms out =
     sorted_wrt (\<lambda>a b. ms (FlareDataPoint.time a) \<ge> ms (FlareDataPoint.time b)) out"

subsection \<open>Source attributor (specification 4.4)\<close>

datatype attribution = CME_ATTRIBUTED | CORONAL_HOLE_STREAM | NO_ATTRIBUTION

definition attributionOf :: "bool \<Rightarrow> bool \<Rightarrow> attribution" where
  "attributionOf highWind protonStorm =
     (if highWind \<and> protonStorm then CME_ATTRIBUTED
      else if highWind \<and> \<not> protonStorm then CORONAL_HOLE_STREAM
      else NO_ATTRIBUTION)"

text \<open>The proton flux of the current (last) sample, 0 when there is none.\<close>

definition lastProtonFlux :: "ProtonDataPoint list \<Rightarrow> real" where
  "lastProtonFlux ps = (if ps = [] then 0 else ProtonDataPoint.flux (last ps))"

definition lastWindSpeed :: "WindDataPoint list \<Rightarrow> real" where
  "lastWindSpeed ws = (if ws = [] then 0 else speed (last ws))"

text \<open>The attribution as the specification computes it from a snapshot.\<close>

definition specAttribution :: "WindDataPoint list \<Rightarrow> ProtonDataPoint list \<Rightarrow> attribution" where
  "specAttribution ws ps = attributionOf (getAverage ws speedKey 6 > 500) (lastProtonFlux ps \<ge> 10)"

text \<open>The attribution that the two alert flags of the page show.\<close>

definition uiAttribution :: "AppState \<Rightarrow> attribution" where
  "uiAttribution st =
     (if isCMESource st then CME_ATTRIBUTED
      else if isCoronalHoleSource st then CORONAL_HOLE_STREAM
      else NO_ATTRIBUTION)"

text \<open>The attribution that a report text states, read off its source sentence.\<close>

definition narrativeAttribution :: "frag list \<Rightarrow> attribution" where
  "narrativeAttribution text =
     (if Lit SRC_CME \<in> set text then CME_ATTRIBUTED
      else if Lit SRC_CH \<in> set text then CORONAL_HOLE_STREAM
      else NO_ATTRIBUTION)"

subsection \<open>Forecast comparator (specification 4.6)\<close>

datatype forecastVerdict = EXPECT_RISE | EXPECT_DECLINE | EXPECT_NO_CHANGE

definition specNextKp :: "ForecastDataPoint list \<Rightarrow> KpDataPoint list \<Rightarrow> real" where
  "specNextKp fc ks = (if length fc \<ge> 2 then ForecastDataPoint.kp (fc ! 1) else lastKp ks)"

definition forecastVerdictOf :: "real \<Rightarrow> real \<Rightarrow> forecastVerdict" where
  "forecastVerdictOf nextKp lkp =
     (if nextKp > lkp then EXPECT_RISE
      else if nextKp < lkp \<and> lkp \<ge> 4 then EXPECT_DECLINE
      else EXPECT_NO_CHANGE)"

text \<open>The three forecast sentences, each with the variants of its phrase.\<close>

definition isSentence :: "forecastVerdict \<Rightarrow> frag list \<Rightarrow> bool" where
  "isSentence v text =
     (case v of
        EXPECT_RISE \<Rightarrow>
          text = [Lit FC_RISE_PRE, Lit FC_RISE_A, Lit FC_RISE_POST] \<or>
          text = [Lit FC_RISE_PRE, Lit FC_RISE_B, Lit FC_RISE_POST]
      | EXPECT_DECLINE \<Rightarrow>
          text = [Lit FC_DECL_PRE, Lit FC_DECL_A, Lit FC_DECL_POST] \<or>
          text = [Lit FC_DECL_PRE, Lit FC_DECL_B, Lit FC_DECL_POST] \<or>
          text = [Lit FC_DECL_PRE, Lit FC_DECL_C, Lit FC_DECL_POST]
      | EXPECT_NO_CHANGE \<Rightarrow> text = [Lit FC_NOCHANGE])"

subsection \<open>Concrete samples\<close>

definition kpSample :: "real \<Rightarrow> KpDataPoint" where
  "kpSample v = \<lparr>KpDataPoint.time = ''2024-05-10T12:00:00Z'', kp = v\<rparr>"

definition windSample :: "real \<Rightarrow> real \<Rightarrow> WindDataPoint" where
  "windSample v d = \<lparr>WindDataPoint.time = ''2024-05-10T12:00:00Z'', speed = v, density = d\<rparr>"

definition protonSample :: "real \<Rightarrow> ProtonDataPoint" where
  "protonSample v = \<lparr>ProtonDataPoint.time = ''2024-05-10T12:00:00Z'', flux = v\<rparr>"

definition forecastSample :: "real \<Rightarrow> ForecastDataPoint" where
  "forecastSample v = \<lparr>ForecastDataPoint.time = ''2024-05-10T15:00:00Z'', kp = v\<rparr>"

definition flareSample :: "string \<Rightarrow> real \<Rightarrow> FlareDataPoint" where
  "flareSample t v = \<lparr>FlareDataPoint.time = t, flux = v, flareClass = getFlareClass v\<rparr>"

text \<open>A clock for the samples above: the time strings \<open>1\<close> to \<open>5\<close> read as minutes.\<close>

definition minuteClock :: "string \<Rightarrow> int" where
  "minuteClock t = (if t = ''1'' then 1 else if t = ''2'' then 2 else if t = ''3'' then 3
                    else if t = ''4'' then 4 else if t = ''5'' then 5 else 0)"

section \<open>Auxiliary facts\<close>

subsection \<open>The windowed average\<close>

lemma foldl_add_sum_list:
  "foldl (\<lambda>acc curr. acc + f curr) a xs = a + sum_list (map f xs)"
  by (induction xs arbitrary: a) (simp_all add: algebra_simps)

lemma orNum_keyValue: "orNum (key x) 0 = keyValue key x"
  by (simp add: orNum_def keyValue_def split: option.splits)

lemma getAverage_nonempty:
  "data \<noteq> [] \<Longrightarrow> getAverage data key cnt = meanOf key (sliceLast data cnt)"
  by (simp add: getAverage_def meanOf_def foldl_add_sum_list orNum_keyValue Let_def)

lemma sliceLast_pos: "1 \<le> cnt \<Longrightarrow> sliceLast xs cnt = lastN (min cnt (length xs)) xs"
  by (simp add: sliceLast_def lastN_def min_def)

lemma length_lastN_min: "length (lastN (min cnt (length xs)) xs) = min cnt (length xs)"
  by (simp add: lastN_def)

lemma sliceLast_nonempty:
  assumes "data \<noteq> []"
  shows "sliceLast data cnt \<noteq> []"
proof (cases "cnt = 0")
  case True
  then show ?thesis using assms by (simp add: sliceLast_def)
next
  case False
  from assms have "0 < length data" by simp
  with False have "length data - cnt < length data" by arith
  with False show ?thesis by (simp add: sliceLast_def)
qed

lemma keyValue_falsy: "\<not> truthy key x \<Longrightarrow> keyValue key x = 0"
  by (simp add: truthy_def keyValue_def split: option.splits)

lemma sum_truthy_only:
  "sum_list (map (keyValue key) xs) = sum_list (map (keyValue key) (filter (truthy key) xs))"
  by (induction xs) (simp_all add: keyValue_falsy)

lemma shrink_towards_zero:
  fixes s :: real
  assumes "k \<le> n" and "k = 0 \<longrightarrow> s = 0"
  shows "\<bar>s / real n\<bar> \<le> \<bar>s / real k\<bar>"
proof (cases "k = 0")
  case True
  with assms show ?thesis by simp
next
  case False
  then have "0 < real k" and "real k \<le> real n" using assms(1) by simp_all
  then have "\<bar>s\<bar> / real n \<le> \<bar>s\<bar> / real k"
    by (intro divide_left_mono) simp_all
  then show ?thesis by simp
qed

subsection \<open>Digits, number formatting and parsing\<close>

lemma digit_cases: "d < 10 \<Longrightarrow> d \<in> {0, 1, 2, 3, 4, 5, 6, 7, 8, 9::nat}"
  by auto

lemma digitChar_props:
  assumes "d < 10"
  shows "isDigit (digitChar d)" and "digitVal (digitChar d) = d"
    and "digitChar d \<noteq> CHR ''M''" and "digitChar d \<noteq> CHR ''X''"
    and "digitChar d \<noteq> CHR ''-''" and "digitChar d \<noteq> CHR ''+''" and "digitChar d \<noteq> CHR ''.''"
  using digit_cases [OF assms]
  by (auto simp add: digitChar_def isDigit_def digitVal_def)

lemma not_digit_point: "\<not> isDigit CHR ''.''"
  by (simp add: isDigit_def)

lemma showNat_digits: "c \<in> set (showNat n) \<Longrightarrow> \<exists>d < 10. c = digitChar d"
proof (induction n rule: showNat.induct)
  case (1 n)
  show ?case
  proof (cases "n < 10")
    case True
    with "1.prems" show ?thesis by (auto simp add: showNat.simps [of n])
  next
    case False
    with "1.prems" have "c \<in> set (showNat (n div 10)) \<or> c = digitChar (n mod 10)"
      by (auto simp add: showNat.simps [of n])
    then show ?thesis
    proof
      assume "c \<in> set (showNat (n div 10))"
      with "1.IH" False show ?thesis by blast
    next
      assume "c = digitChar (n mod 10)"
      moreover have "n mod 10 < 10" by simp
      ultimately show ?thesis by blast
    qed
  qed
qed

lemma showNat_nonempty: "showNat n \<noteq> []"
  by (subst showNat.simps) simp

lemma digitsValue_snoc: "digitsValue (xs @ [c]) = 10 * digitsValue xs + digitVal c"
  by (simp add: digitsValue_def)

lemma digitsValue_showNat: "digitsValue (showNat n) = n"
proof (induction n rule: showNat.induct)
  case (1 n)
  show ?case
  proof (cases "n < 10")
    case True
    then show ?thesis
      by (simp add: showNat.simps [of n] digitsValue_def digitChar_props)
  next
    case False
    with "1.IH" have "digitsValue (showNat (n div 10)) = n div 10" by simp
    with False show ?thesis
      by (simp add: showNat.simps [of n] digitsValue_snoc digitChar_props)
  qed
qed

lemma showNat_all_digits: "c \<in> set (showNat n) \<Longrightarrow> isDigit c"
  using showNat_digits digitChar_props(1) by blast


lemma showNat_head: "\<exists>c cs. showNat n = c # cs \<and> isDigit c \<and> c \<noteq> CHR ''-'' \<and> c \<noteq> CHR ''+''"
proof -
  obtain c cs where e: "showNat n = c # cs"
    using showNat_nonempty [of n] by (cases "showNat n") auto
  then have "c \<in> set (showNat n)" by simp
  then obtain d where "d < 10" "c = digitChar d" using showNat_digits by blast
  then have "isDigit c \<and> c \<noteq> CHR ''-'' \<and> c \<noteq> CHR ''+''"
    by (simp add: digitChar_props)
  with e show ?thesis by blast
qed

lemma parse_digits_point:
  assumes "a = c # cs" "isDigit c" "c \<noteq> CHR ''-''" "c \<noteq> CHR ''+''"
    and "\<forall>x \<in> set a. isDigit x" and "isDigit d"
  shows "parseFloat (a @ CHR ''.'' # [d]) =
           Some (real (digitsValue a) + real (digitVal d) / 10)"
proof -
  have tw: "takeWhile isDigit (a @ CHR ''.'' # [d]) = a"
    using assms(5) by (simp add: not_digit_point)
  have dw: "dropWhile isDigit (a @ CHR ''.'' # [d]) = CHR ''.'' # [d]"
    using assms(5) by (simp add: not_digit_point)
  have s: "a @ CHR ''.'' # [d] = c # (cs @ CHR ''.'' # [d])"
    using assms(1) by simp
  have ne: "a \<noteq> []" using assms(1) by simp
  have "parseFloat (a @ CHR ''.'' # [d]) =
          (let neg = False; body = a @ CHR ''.'' # [d];
               ip = takeWhile isDigit body; rest = dropWhile isDigit body;
               fp = (case rest of [] \<Rightarrow> [] | c # r \<Rightarrow> if c = CHR ''.'' then takeWhile isDigit r else [])
           in if ip = [] \<and> fp = [] then None
              else let v = real (digitsValue ip) + real (digitsValue fp) / 10 ^ length fp
                   in Some (if neg then - v else v))"
    unfolding parseFloat_def s using assms(3,4) by (simp add: Let_def)
  also have "\<dots> = Some (real (digitsValue a) + real (digitVal d) / 10)"
    using ne assms(6) by (simp add: Let_def tw dw digitsValue_def)
  finally show ?thesis .
qed

lemma toFixed1_nonneg:
  "0 \<le> x \<Longrightarrow> toFixed1 x =
     showNat (nat \<lfloor>x * 10 + 1 / 2\<rfloor> div 10) @ CHR ''.'' # [digitChar (nat \<lfloor>x * 10 + 1 / 2\<rfloor> mod 10)]"
  by (simp add: toFixed1_def Let_def)

lemma real_div_mod_10: "real (n div 10) + real (n mod 10) / 10 = real n / 10"
proof -
  have "real n = real (10 * (n div 10) + n mod 10)" by simp
  also have "\<dots> = 10 * real (n div 10) + real (n mod 10)" by (simp only: of_nat_add of_nat_mult of_nat_numeral)
  finally show ?thesis by simp
qed

lemma parseFloat_toFixed1:
  assumes "0 \<le> x"
  shows "parseFloat (toFixed1 x) = Some (real (nat \<lfloor>x * 10 + 1 / 2\<rfloor>) / 10)"
proof -
  define n where "n = nat \<lfloor>x * 10 + 1 / 2\<rfloor>"
  obtain c cs where h: "showNat (n div 10) = c # cs" "isDigit c" "c \<noteq> CHR ''-''" "c \<noteq> CHR ''+''"
    using showNat_head by blast
  have ad: "\<forall>x \<in> set (showNat (n div 10)). isDigit x"
    using showNat_all_digits by blast
  have dd: "isDigit (digitChar (n mod 10))" "digitVal (digitChar (n mod 10)) = n mod 10"
    by (simp_all add: digitChar_props)
  have "parseFloat (showNat (n div 10) @ CHR ''.'' # [digitChar (n mod 10)]) =
          Some (real (digitsValue (showNat (n div 10))) + real (digitVal (digitChar (n mod 10))) / 10)"
    by (rule parse_digits_point [OF h ad dd(1)])
  then show ?thesis
    using assms by (simp add: toFixed1_nonneg n_def [symmetric] digitsValue_showNat dd(2) real_div_mod_10)
qed

lemma shownMantissa_nonneg:
  "0 \<le> x \<Longrightarrow> real (nat \<lfloor>x * 10 + 1 / 2\<rfloor>) / 10 = shownMantissa x"
proof -
  assume "0 \<le> x"
  then have "0 \<le> \<lfloor>x * 10 + 1 / 2\<rfloor>" by simp
  then show ?thesis by (simp add: shownMantissa_def)
qed

lemma toFixed1_chars:
  "c \<in> set (toFixed1 x) \<Longrightarrow> c \<noteq> CHR ''M'' \<and> c \<noteq> CHR ''X''"
proof -
  assume "c \<in> set (toFixed1 x)"
  then have "c = CHR ''-'' \<or> c = CHR ''.'' \<or> (\<exists>d < 10. c = digitChar d)"
    using showNat_digits [of c] 
    by (auto simp add: toFixed1_def Let_def split: if_splits intro: exI [of _ "nat \<lfloor>\<bar>x\<bar> * 10 + 1 / 2\<rfloor> mod 10"])
  then show ?thesis
    by (auto simp add: digitChar_props)
qed

lemma dangerScore_parts:
  "dangerScore lkp aw cls = kpContribution lkp + windContribution aw + flarePart cls"
  by (simp add: dangerScore_def Let_def kpContribution_def windContribution_def flarePart_def split: option.splits)

lemma flarePart_classString:
  assumes "l = LM \<longrightarrow> 0 \<le> m"
  shows "flarePart (classString l m) = flareContribution l m"
proof (cases l)
  case LM
  with assms have m: "0 \<le> m" by simp
  have nx: "\<not> strIncludes (classString LM m) CHR ''X''"
    using toFixed1_chars [of "CHR ''X''" m]
    by (auto simp add: strIncludes_def classString_def letterChar_def)
  have im: "strIncludes (classString LM m) CHR ''M''"
    by (simp add: strIncludes_def classString_def letterChar_def)
  have rp: "replaceFirst (classString LM m) CHR ''M'' = toFixed1 m"
    by (simp add: replaceFirst_def classString_def letterChar_def)
  show ?thesis
    unfolding LM flarePart_def
    by (simp add: nx im rp parseFloat_toFixed1 [OF m] shownMantissa_nonneg [OF m] flareContribution_def)
next
  case LX
  then show ?thesis
    by (simp add: flarePart_def strIncludes_def classString_def letterChar_def flareContribution_def)
next
  case LA
  then show ?thesis
    using toFixed1_chars [of "CHR ''X''" m] toFixed1_chars [of "CHR ''M''" m]
    by (auto simp add: flarePart_def strIncludes_def classString_def letterChar_def flareContribution_def)
next
  case LB
  then show ?thesis
    using toFixed1_chars [of "CHR ''X''" m] toFixed1_chars [of "CHR ''M''" m]
    by (auto simp add: flarePart_def strIncludes_def classString_def letterChar_def flareContribution_def)
next
  case LC
  then show ?thesis
    using toFixed1_chars [of "CHR ''X''" m] toFixed1_chars [of "CHR ''M''" m]
    by (auto simp add: flarePart_def strIncludes_def classString_def letterChar_def flareContribution_def)
qed

lemma classMantissa_LM: "classLetter fl = LM \<Longrightarrow> 0 \<le> classMantissa fl"
proof -
  assume a: "classLetter fl = LM"
  then have "\<not> fl < 1 / 10 ^ 5" by (auto simp add: classLetter_def split: if_splits)
  then have "0 \<le> fl" by simp
  with a show ?thesis by (simp add: classMantissa_def)
qed

lemma flarePart_getFlareClass:
  "flarePart (getFlareClass fl) = flareContribution (classLetter fl) (classMantissa fl)"
  unfolding getFlareClass_def
  by (rule flarePart_classString) (simp add: classMantissa_LM)

subsection \<open>The analysis never raises\<close>

lemma arrayAt_in_range: "i < length xs \<Longrightarrow> arrayAt xs (int i) = Some (xs ! i)"
  by (simp add: arrayAt_def)

lemma nextForecastKp_value: "nextForecastKp fc (lastKp ks) = Inr (specNextKp fc ks)"
proof (cases "length fc > 1")
  case True
  then have "arrayAt fc 1 = Some (fc ! 1)"
    using arrayAt_in_range [of 1 fc] by simp
  with True show ?thesis
    by (simp add: nextForecastKp_def specNextKp_def)
next
  case False
  then show ?thesis
    by (simp add: nextForecastKp_def specNextKp_def)
qed

lemma reportParts_value:
  "reportParts st rnd ks ws fs ps fc =
     Inr [statusText (rnd 0) (lastKp ks) (trendDesc (lastKp ks) (prevKp ks)),
          dynText (windData st) (avgWind ws) (prevWind ws) (avgProton ps) (lastKp ks),
          forecastText (rnd 1) (specNextKp fc ks) (lastKp ks),
          physText (protonData st) (avgFlareClass fs) (avgProton ps)]"
  by (simp add: reportParts_def nextForecastKp_value)

lemma analyzeData_value:
  "analyzeData st rnd ks ws fs ps fc =
     Inr (dangerIndexOf (dangerScore (lastKp ks) (avgWind ws) (avgFlareClass fs)),
          statusText (rnd 0) (lastKp ks) (trendDesc (lastKp ks) (prevKp ks)) @ [Lit PARA] @
          dynText (windData st) (avgWind ws) (prevWind ws) (avgProton ps) (lastKp ks) @ [Lit PARA] @
          forecastText (rnd 1) (specNextKp fc ks) (lastKp ks) @ [Lit PARA] @
          physText (protonData st) (avgFlareClass fs) (avgProton ps))"
  by (simp add: analyzeData_def reportParts_value)

lemma dangerIndexOf_fields:
  "score (dangerIndexOf sc) = sc" "label (dangerIndexOf sc) = labelFor sc"
  by (simp_all add: dangerIndexOf_def labelFor_def)

lemma arrayAt_SomeD: "arrayAt xs i = Some x \<Longrightarrow> x \<in> set xs"
proof -
  assume "arrayAt xs i = Some x"
  then have h: "0 \<le> i" "i < int (length xs)" "x = xs ! nat i"
    by (auto simp add: arrayAt_def split: if_splits)
  then have "nat i < length xs" by linarith
  with h(3) show ?thesis by simp
qed

lemma pick_in_range:
  assumes "0 \<le> r" "r < 1" "options \<noteq> []"
  shows "\<exists>p \<in> set options. pick r options = Lit p"
proof -
  define n where "n = length options"
  have n: "0 < n" using assms(3) by (simp add: n_def)
  have lo: "0 \<le> \<lfloor>r * real n\<rfloor>" using assms(1) by simp
  have "r * real n < real n" using assms(2) n by simp
  then have hi: "\<lfloor>r * real n\<rfloor> < int n" by (simp add: floor_less_iff)
  from lo hi have e: "arrayAt options \<lfloor>r * real n\<rfloor> = Some (options ! nat \<lfloor>r * real n\<rfloor>)"
    by (simp add: arrayAt_def n_def)
  then have "options ! nat \<lfloor>r * real n\<rfloor> \<in> set options"
    by (rule arrayAt_SomeD)
  with e show ?thesis by (auto simp add: pick_def n_def)
qed

lemma pick_cases: "pick r options = Dyn ''undefined'' \<or> (\<exists>p \<in> set options. pick r options = Lit p)"
proof (cases "arrayAt options \<lfloor>r * real (length options)\<rfloor>")
  case None
  then show ?thesis by (simp add: pick_def)
next
  case (Some p)
  then have "p \<in> set options"
    by (rule arrayAt_SomeD)
  with Some show ?thesis by (simp add: pick_def)
qed

subsection \<open>The flare contribution grows with severity\<close>

lemma shownMantissa_mono: "m1 \<le> m2 \<Longrightarrow> shownMantissa m1 \<le> shownMantissa m2"
  by (simp add: shownMantissa_def floor_mono divide_right_mono)

lemma flareContribution_mono:
  "letterRank l1 < letterRank l2 \<or> l1 = l2 \<and> m1 \<le> m2 \<Longrightarrow>
     flareContribution l1 m1 \<le> flareContribution l2 m2"
  using shownMantissa_mono [of m1 m2]
  by (cases l1; cases l2) (auto simp add: flareContribution_def letterRank_def)

lemma classLetter_mono: "fl1 \<le> fl2 \<Longrightarrow> letterRank (classLetter fl1) \<le> letterRank (classLetter fl2)"
  by (simp add: classLetter_def letterRank_def)

lemma classMantissa_same_letter:
  "classLetter fl1 = classLetter fl2 \<Longrightarrow> fl1 \<le> fl2 \<Longrightarrow> classMantissa fl1 \<le> classMantissa fl2"
  by (cases "classLetter fl2") (simp_all add: classMantissa_def)

lemma letterRank_inj: "letterRank l1 = letterRank l2 \<Longrightarrow> l1 = l2"
  by (cases l1; cases l2) (simp_all add: letterRank_def)

lemma flareContribution_flux_mono:
  assumes "fl1 \<le> fl2"
  shows "flareContribution (classLetter fl1) (classMantissa fl1)
           \<le> flareContribution (classLetter fl2) (classMantissa fl2)"
proof (cases "classLetter fl1 = classLetter fl2")
  case True
  have "classMantissa fl1 \<le> classMantissa fl2"
    by (rule classMantissa_same_letter [OF True assms])
  with True show ?thesis
    by (intro flareContribution_mono) simp
next
  case False
  with classLetter_mono [OF assms] have "letterRank (classLetter fl1) < letterRank (classLetter fl2)"
    using letterRank_inj [of "classLetter fl1" "classLetter fl2"] by linarith
  then show ?thesis
    by (intro flareContribution_mono) simp
qed

subsection \<open>The forecast sentences\<close>

lemma pick_two:
  assumes "0 \<le> r" "r < 1"
  shows "pick r [a, b] = Lit a \<or> pick r [a, b] = Lit b"
proof -
  obtain p where "p \<in> set [a, b]" "pick r [a, b] = Lit p"
    using pick_in_range [OF assms, of "[a, b]"] by blast
  then show ?thesis by (cases "p = a") simp_all
qed

lemma pick_three:
  assumes "0 \<le> r" "r < 1"
  shows "pick r [a, b, c] = Lit a \<or> pick r [a, b, c] = Lit b \<or> pick r [a, b, c] = Lit c"
proof -
  obtain p where "p \<in> set [a, b, c]" "pick r [a, b, c] = Lit p"
    using pick_in_range [OF assms, of "[a, b, c]"] by blast
  then show ?thesis by (cases "p = a"; cases "p = b") simp_all
qed

lemma forecastText_sentence:
  assumes "0 \<le> r" "r < 1"
  shows "isSentence (forecastVerdictOf nf lkp) (forecastText r nf lkp)"
proof (cases "nf > lkp")
  case True
  then have "forecastVerdictOf nf lkp = EXPECT_RISE"
    and "forecastText r nf lkp = [Lit FC_RISE_PRE, pick r [FC_RISE_A, FC_RISE_B], Lit FC_RISE_POST]"
    by (simp_all add: forecastVerdictOf_def forecastText_def)
  then show ?thesis
    using pick_two [OF assms, of FC_RISE_A FC_RISE_B] by (simp add: isSentence_def)
next
  case False
  show ?thesis
  proof (cases "nf < lkp \<and> lkp \<ge> 4")
    case True
    with False have "forecastVerdictOf nf lkp = EXPECT_DECLINE"
      and "forecastText r nf lkp =
             [Lit FC_DECL_PRE, pick r [FC_DECL_A, FC_DECL_B, FC_DECL_C], Lit FC_DECL_POST]"
      by (simp_all add: forecastVerdictOf_def forecastText_def)
    then show ?thesis
      using pick_three [OF assms, of FC_DECL_A FC_DECL_B FC_DECL_C] by (simp add: isSentence_def)
  next
    case nd: False
    with False have "forecastVerdictOf nf lkp = EXPECT_NO_CHANGE"
      and "forecastText r nf lkp = [Lit FC_NOCHANGE]"
      by (simp_all add: forecastVerdictOf_def forecastText_def)
    then show ?thesis
      by (simp add: isSentence_def)
  qed
qed

lemma isSentence_unique: "isSentence v text \<Longrightarrow> isSentence v' text \<Longrightarrow> v = v'"
  by (cases v; cases v') (auto simp add: isSentence_def)

subsection \<open>The peak loop\<close>

lemma peaksLoop_stop: "\<not> i + 1 < length fs \<Longrightarrow> peaksLoop fs i peaks = Inr peaks"
proof -
  assume "\<not> i + 1 < length fs"
  then have "\<not> int i < int (length fs) - 1" by linarith
  then show ?thesis by (subst peaksLoop.simps) simp
qed

lemma peaksLoop_step:
  assumes "1 \<le> i" "i + 1 < length fs"
  shows "peaksLoop fs i peaks =
           peaksLoop fs (i + 1) (if isPeakAt fs i then peaks @ [tagFlare (fs ! i)] else peaks)"
proof -
  have c: "int i < int (length fs) - 1" using assms(2) by linarith
  have "0 \<le> int i - 1" "int i - 1 < int (length fs)" "nat (int i - 1) = i - 1"
    using assms by linarith+
  then have p: "arrayAt fs (int i - 1) = Some (fs ! (i - 1))"
    by (simp add: arrayAt_def)
  have m: "arrayAt fs (int i) = Some (fs ! i)"
    using assms(2) by (simp add: arrayAt_def)
  have "0 \<le> int i + 1" "int i + 1 < int (length fs)" "nat (int i + 1) = i + 1"
    using assms by linarith+
  then have n: "arrayAt fs (int i + 1) = Some (fs ! (i + 1))"
    by (simp add: arrayAt_def)
  show ?thesis
    by (subst peaksLoop.simps)
      (simp add: c p m n Let_def isPeakAt_def tagFlare_def threshold_def)
qed

lemma peaksLoop_value:
  "1 \<le> i \<Longrightarrow>
     peaksLoop fs i peaks =
       Inr (peaks @ map (\<lambda>j. tagFlare (fs ! j)) (filter (isPeakAt fs) [i..<length fs - 1]))"
proof (induction "length fs - 1 - i" arbitrary: i peaks)
  case 0
  then have "\<not> i + 1 < length fs" by linarith
  moreover from 0 have "[i..<length fs - 1] = []" by simp
  ultimately show ?case by (simp add: peaksLoop_stop)
next
  case (Suc n)
  then have lt: "i + 1 < length fs" and i: "1 \<le> i" by linarith+
  from Suc have n: "n = length fs - 1 - (i + 1)" by linarith
  from lt have u: "[i..<length fs - Suc 0] = i # [Suc i..<length fs - Suc 0]"
    by (simp add: upt_conv_Cons)
  have "peaksLoop fs (i + 1) (if isPeakAt fs i then peaks @ [tagFlare (fs ! i)] else peaks) =
          Inr ((if isPeakAt fs i then peaks @ [tagFlare (fs ! i)] else peaks) @
               map (\<lambda>j. tagFlare (fs ! j)) (filter (isPeakAt fs) [i + 1..<length fs - 1]))"
    by (rule Suc.hyps(1) [OF n]) simp
  then show ?case
    by (simp add: peaksLoop_step [OF i lt] u)
qed

lemma detectFlares_value:
  "detectFlares ms fs = Inr (sort_key (\<lambda>p. - ms (FlareDataPoint.time p)) (interiorPeaks fs))"
  using peaksLoop_value [of 1 fs "[]"]
  by (simp add: detectFlares_def interiorPeaks_def)

lemma mostRecentFirst_sort:
  "mostRecentFirst ms (sort_key (\<lambda>p. - ms (FlareDataPoint.time p)) xs)"
proof -
  have "sorted (map (\<lambda>p. - ms (FlareDataPoint.time p))
                  (sort_key (\<lambda>p. - ms (FlareDataPoint.time p)) xs))"
    by (rule sorted_sort_key)
  then show ?thesis
    by (simp add: mostRecentFirst_def sorted_map)
qed

lemma interiorPeaks_short: "length fs < 3 \<Longrightarrow> interiorPeaks fs = []"
proof -
  assume "length fs < 3"
  then have "length fs - 1 \<le> 2" by linarith
  then have "filter (isPeakAt fs) [1..<length fs - 1] = [] \<or> length fs - 1 = 2"
    by (cases "length fs - 1 = 2") simp_all
  moreover have "length fs - 1 = 2 \<Longrightarrow> False"
    using \<open>length fs < 3\<close> by linarith
  ultimately show ?thesis
    by (auto simp add: interiorPeaks_def)
qed

lemma interiorPeaks_member:
  "p \<in> set (interiorPeaks fs) \<Longrightarrow>
     \<exists>i. 1 \<le> i \<and> i + 1 < length fs \<and> isPeakAt fs i \<and> p = tagFlare (fs ! i)"
proof -
  assume "p \<in> set (interiorPeaks fs)"
  then obtain i where i: "i \<in> set (filter (isPeakAt fs) [1..<length fs - 1])" "p = tagFlare (fs ! i)"
    by (auto simp add: interiorPeaks_def)
  then have "1 \<le> i" "i < length fs - 1" "isPeakAt fs i" by simp_all
  then have "1 \<le> i \<and> i + 1 < length fs \<and> isPeakAt fs i" by linarith
  with i(2) show ?thesis by blast
qed

subsection \<open>Where the source sentences can occur in a report\<close>

lemma pick_not_member:
  "p \<notin> set options \<Longrightarrow> pick r options \<noteq> Lit p"
  "p \<notin> set options \<Longrightarrow> Lit p \<noteq> pick r options"
  using pick_cases [of r options] by auto

lemma statusText_no_source:
  "Lit SRC_CME \<notin> set (statusText r lkp (trendDesc a b))"
  "Lit SRC_CH \<notin> set (statusText r lkp (trendDesc a b))"
  by (simp_all add: statusText_def pick_not_member trendDesc_def Let_def)

lemma forecastText_no_source:
  "Lit SRC_CME \<notin> set (forecastText r nf lkp)"
  "Lit SRC_CH \<notin> set (forecastText r nf lkp)"
  by (simp_all add: forecastText_def pick_not_member)

lemma physText_no_source:
  "Lit SRC_CME \<notin> set (physText pd cls ap)"
  "Lit SRC_CH \<notin> set (physText pd cls ap)"
  by (simp_all add: physText_def)

lemma dynText_source:
  "Lit SRC_CME \<in> set (dynText wd aw pw ap lkp) \<longleftrightarrow> aw \<ge> 500 \<and> ap \<ge> 10"
  "Lit SRC_CH \<in> set (dynText wd aw pw ap lkp) \<longleftrightarrow> aw \<ge> 500 \<and> ap < 10"
  by (auto simp add: dynText_def sourceNote_def windTrend_def Let_def)

lemma narrativeAttribution_report:
  "narrativeAttribution
     (statusText r lkp (trendDesc a b) @ Lit PARA # dynText wd aw pw ap lkp @ Lit PARA #
      forecastText r' nf lkp @ Lit PARA # physText pd cls ap) =
   (if aw \<ge> 500 then attributionOf True (ap \<ge> 10) else NO_ATTRIBUTION)"
  by (simp add: narrativeAttribution_def statusText_no_source forecastText_no_source
      physText_no_source dynText_source attributionOf_def)

lemma arrayAt_last:
  "arrayAt xs (int (length xs) - 1) = (if xs = [] then None else Some (last xs))"
proof (cases "xs = []")
  case True
  then show ?thesis by (simp add: arrayAt_def)
next
  case False
  then have "0 < length xs" by simp
  then have "0 \<le> int (length xs) - 1" "int (length xs) - 1 < int (length xs)"
      "nat (int (length xs) - 1) = length xs - 1"
    by linarith+
  then have "arrayAt xs (int (length xs) - 1) = Some (xs ! (length xs - 1))"
    by (simp add: arrayAt_def)
  with False show ?thesis by (simp add: last_conv_nth)
qed

lemma currentWind_last: "currentWind st = lastWindSpeed (windData st)"
  by (simp add: currentWind_def arrayAt_last orNum_def lastWindSpeed_def)

lemma currentProtonFlux_last: "currentProtonFlux st = lastProtonFlux (protonData st)"
  by (simp add: currentProtonFlux_def arrayAt_last orNum_def lastProtonFlux_def)

lemma uiAttribution_value:
  "uiAttribution st =
     attributionOf (lastWindSpeed (windData st) > 500) (lastProtonFlux (protonData st) \<ge> 10)"
  by (simp add: uiAttribution_def isCMESource_def isCoronalHoleSource_def isHighWind_def
      isProtonStorm_def currentWind_last currentProtonFlux_last attributionOf_def)

lemma loadData_value:
  "loadData ms rnd st result =
     Inr (st\<lparr>kpData := FetchResult.kp result, windData := wind result,
             flareData := flares result,
             forecastData := orEmpty (forecast result),
             protonData := orEmpty (protons result),
             detectedFlares :=
               sort_key (\<lambda>p. - ms (FlareDataPoint.time p)) (interiorPeaks (flares result)),
             report :=
               snd (projr (analyzeData st rnd (FetchResult.kp result) (wind result) (flares result)
                             (orEmpty (protons result)) (orEmpty (forecast result)))),
             dangerIndex :=
               fst (projr (analyzeData st rnd (FetchResult.kp result) (wind result) (flares result)
                             (orEmpty (protons result)) (orEmpty (forecast result))))\<rparr>)"
  by (simp add: loadData_def analyzeData_value detectFlares_value)

section \<open>The windowed aggregator\<close>

text \<open>
  C4, as amended. For a count of at least one, getAverage is the arithmetic mean of the
  key field over the last \<open>min count length\<close> elements, and it is 0 on the empty series
  for every count; no case raises. The previous-window value of the wind is the
  average of \<open>series[0 : len - 6]\<close> unless that average is 0, and then it is the
  current-window average; an empty slice is one such case.
\<close>

theorem getAverage_window:
  "getAverage [] key cnt = 0 \<and>
   (data \<noteq> [] \<and> 1 \<le> cnt \<longrightarrow>
      getAverage data key cnt = meanOf key (lastN (min cnt (length data)) data) \<and>
      length (lastN (min cnt (length data)) data) = min cnt (length data)) \<and>
   prevWind ws =
     (if getAverage (take (length ws - 6) ws) speedKey 6 = 0 then avgWind ws
      else getAverage (take (length ws - 6) ws) speedKey 6) \<and>
   (take (length ws - 6) ws = [] \<longrightarrow> prevWind ws = avgWind ws)"
proof -
  have a: "getAverage [] key cnt = 0"
    by (simp add: getAverage_def)
  have b: "data \<noteq> [] \<and> 1 \<le> cnt \<longrightarrow>
      getAverage data key cnt = meanOf key (lastN (min cnt (length data)) data) \<and>
      length (lastN (min cnt (length data)) data) = min cnt (length data)"
    using getAverage_nonempty [of data key cnt] sliceLast_pos [of cnt data]
    by (simp add: length_lastN_min)
  have c: "prevWind ws =
     (if getAverage (take (length ws - 6) ws) speedKey 6 = 0 then avgWind ws
      else getAverage (take (length ws - 6) ws) speedKey 6)"
    by (simp add: prevWind_def sliceDropLast_def orNum_def)
  have d: "take (length ws - 6) ws = [] \<longrightarrow> prevWind ws = avgWind ws"
    by (simp add: c getAverage_def)
  from a b c d show ?thesis by blast
qed

text \<open>
  The theorem at a two-sample series and count 6: the window is the whole series, the
  slice of earlier samples is empty and the previous value is the current average.
\<close>

theorem getAverage_window_witness:
  "[windSample 400 5, windSample 600 5] \<noteq> [] \<and> (1::nat) \<le> 6 \<and>
   getAverage [windSample 400 5, windSample 600 5] speedKey 6 = 500 \<and>
   take (length [windSample 400 5, windSample 600 5] - 6) [windSample 400 5, windSample 600 5] = [] \<and>
   prevWind [windSample 400 5, windSample 600 5] = 500"
  using getAverage_window [of speedKey 6 "[windSample 400 5, windSample 600 5]"
      "[windSample 400 5, windSample 600 5]"]
  by (simp add: meanOf_def lastN_def keyValue_def speedKey_def windSample_def avgWind_def)

text \<open>
  C4 as stated fails. Seven wind samples, the first of speed 0 and six of speed 600: the
  slice \<open>series[0 : len - 6]\<close> holds one sample, so it is not empty, and its average is
  0, yet the previous-window value is 600, the current-window average. And with count 0
  the average runs over the whole series, not over the last \<open>min 0 length\<close> elements.
\<close>

theorem getAverage_window_counterexample:
  "take (length [windSample 0 5, windSample 600 5, windSample 600 5, windSample 600 5,
                 windSample 600 5, windSample 600 5, windSample 600 5] - 6)
        [windSample 0 5, windSample 600 5, windSample 600 5, windSample 600 5,
         windSample 600 5, windSample 600 5, windSample 600 5] = [windSample 0 5] \<and>
   getAverage [windSample 0 5] speedKey 6 = 0 \<and>
   prevWind [windSample 0 5, windSample 600 5, windSample 600 5, windSample 600 5,
             windSample 600 5, windSample 600 5, windSample 600 5] = 600 \<and>
   avgWind [windSample 0 5, windSample 600 5, windSample 600 5, windSample 600 5,
            windSample 600 5, windSample 600 5, windSample 600 5] = 600 \<and>
   getAverage [windSample 5 1, windSample 7 1] speedKey 0 = 6 \<and>
   lastN (min 0 (length [windSample 5 1, windSample 7 1])) [windSample 5 1, windSample 7 1] = []"
  by (simp add: prevWind_def avgWind_def sliceDropLast_def getAverage_def sliceLast_def
      orNum_def speedKey_def windSample_def lastN_def)

text \<open>
  C10. A sample of the window whose key field is absent or falsy adds 0 to the sum and
  still counts in the divisor: the result is the sum over the truthy samples divided by
  the length of the whole window, it is the mean of the truthy samples scaled by their
  share of the window, and so it is no farther from 0 than the mean that skipping the
  falsy samples would give. No case raises.
\<close>

theorem getAverage_falsy_counts_as_zero:
  "data \<noteq> [] \<Longrightarrow>
     (\<not> truthy key x \<longrightarrow> orNum (key x) 0 = 0) \<and>
     getAverage data key cnt =
       sum_list (map (keyValue key) (filter (truthy key) (sliceLast data cnt)))
         / real (length (sliceLast data cnt)) \<and>
     getAverage data key cnt =
       skipMean key (sliceLast data cnt)
         * (real (length (filter (truthy key) (sliceLast data cnt)))
              / real (length (sliceLast data cnt))) \<and>
     \<bar>getAverage data key cnt\<bar> \<le> \<bar>skipMean key (sliceLast data cnt)\<bar>"
proof -
  assume ne: "data \<noteq> []"
  define w where "w = sliceLast data cnt"
  define t where "t = filter (truthy key) w"
  define s where "s = sum_list (map (keyValue key) t)"
  have a: "\<not> truthy key x \<longrightarrow> orNum (key x) 0 = 0"
    by (simp add: orNum_keyValue keyValue_falsy)
  have b: "getAverage data key cnt = s / real (length w)"
    using getAverage_nonempty [OF ne, of key cnt] sum_truthy_only [of key w]
    by (simp add: meanOf_def w_def t_def s_def)
  have sm: "skipMean key w = s / real (length t)"
    by (simp add: skipMean_def meanOf_def t_def s_def)
  have t0: "length t = 0 \<longrightarrow> s = 0"
    by (simp add: s_def)
  have c: "getAverage data key cnt = skipMean key w * (real (length t) / real (length w))"
    using t0 by (cases "length t = 0") (simp_all add: b sm)
  have "length t \<le> length w"
    by (simp add: t_def)
  then have d: "\<bar>getAverage data key cnt\<bar> \<le> \<bar>skipMean key w\<bar>"
    unfolding b sm using t0 by (rule shrink_towards_zero)
  from a b c d show ?thesis
    unfolding w_def t_def s_def by blast
qed

text \<open>
  The theorem on a window of an absent, a zero and a present field: the average is 2,
  a third of the 6 that skipping the two falsy samples would give.
\<close>

theorem getAverage_falsy_counts_as_zero_witness:
  "[None, Some 0, Some (6::real)] \<noteq> [] \<and>
   \<not> truthy (\<lambda>v. v) (None :: real option) \<and>
   getAverage [None, Some 0, Some 6] (\<lambda>v. v) 6 = 2 \<and>
   skipMean (\<lambda>v. v) (sliceLast [None, Some 0, Some 6] 6) = 6"
  using getAverage_falsy_counts_as_zero [of "[None, Some 0, Some 6]" "\<lambda>v. v" None 6]
  by (simp add: skipMean_def meanOf_def truthy_def keyValue_def sliceLast_def)

section \<open>The danger scorer\<close>

text \<open>
  C1. For every snapshot the analysis returns a danger index whose score is the sum of
  the Kp contribution of the last Kp, the wind contribution of the 6-sample average
  speed and the flare contribution of the class of the 12-sample average flux (X gives
  3, M with a shown mantissa of at least 5 gives 2, any other M gives 1, all else 0),
  and whose label is HIGH exactly when the score is at least 5, MODERATE exactly when
  it is 3 or 4, and BACKGROUND otherwise.
\<close>

theorem danger_score_is_sum_of_contributions:
  "\<exists>di rep.
     analyzeData st rnd ks ws fs ps fc = Inr (di, rep) \<and>
     avgFlareClass fs =
       classString (classLetter (getAverage fs flareFluxKey 12))
         (classMantissa (getAverage fs flareFluxKey 12)) \<and>
     score di =
       kpContribution (lastKp ks) + windContribution (getAverage ws speedKey 6)
         + flareContribution (classLetter (getAverage fs flareFluxKey 12))
             (classMantissa (getAverage fs flareFluxKey 12)) \<and>
     (label di = HIGH \<longleftrightarrow> score di \<ge> 5) \<and>
     (label di = MODERATE \<longleftrightarrow> 3 \<le> score di \<and> score di < 5) \<and>
     (label di = BACKGROUND \<longleftrightarrow> score di < 3)"
proof -
  define sc where "sc = dangerScore (lastKp ks) (avgWind ws) (avgFlareClass fs)"
  have cls: "avgFlareClass fs =
       classString (classLetter (getAverage fs flareFluxKey 12))
         (classMantissa (getAverage fs flareFluxKey 12))"
    by (simp add: avgFlareClass_def avgFlux_def getFlareClass_def)
  have "flarePart (avgFlareClass fs) =
          flareContribution (classLetter (avgFlux fs)) (classMantissa (avgFlux fs))"
    by (simp add: avgFlareClass_def flarePart_getFlareClass)
  then have sum: "sc =
       kpContribution (lastKp ks) + windContribution (getAverage ws speedKey 6)
         + flareContribution (classLetter (getAverage fs flareFluxKey 12))
             (classMantissa (getAverage fs flareFluxKey 12))"
    by (simp add: sc_def dangerScore_parts avgWind_def avgFlux_def)
  have lab: "(labelFor sc = HIGH \<longleftrightarrow> sc \<ge> 5) \<and>
     (labelFor sc = MODERATE \<longleftrightarrow> 3 \<le> sc \<and> sc < 5) \<and>
     (labelFor sc = BACKGROUND \<longleftrightarrow> sc < 3)"
    by (simp add: labelFor_def)
  obtain rep where "analyzeData st rnd ks ws fs ps fc = Inr (dangerIndexOf sc, rep)"
    by (simp add: analyzeData_value sc_def)
  with cls sum lab show ?thesis
    by (simp add: dangerIndexOf_fields)
qed

text \<open>
  The theorem at two snapshots. Kp 5, six wind samples of speed 500 and a flare flux of
  1e-7: the score is 3 + 2 + 0 = 5 and the label is HIGH. Kp 3, one wind sample of
  speed 400 and a flare flux of 4.96e-5, shown as class M5.0: the score is
  1 + 1 + 2 = 4 and the label is MODERATE.
\<close>

theorem danger_score_is_sum_of_contributions_witness:
  "(\<exists>di rep.
      analyzeData initialState (\<lambda>i. 0) [kpSample 3, kpSample 3, kpSample 5]
        [windSample 500 5, windSample 500 5, windSample 500 5,
         windSample 500 5, windSample 500 5, windSample 500 5]
        [flareSample ''1'' (1 / 10 ^ 7)] [protonSample 3] [] = Inr (di, rep) \<and>
      score di = 5 \<and> label di = HIGH) \<and>
   (\<exists>di rep.
      analyzeData initialState (\<lambda>i. 0) [kpSample 3] [windSample 400 5]
        [flareSample ''1'' (496 / 10 ^ 7)] [] [] = Inr (di, rep) \<and>
      avgFlareClass [flareSample ''1'' (496 / 10 ^ 7)] = ''M5.0'' \<and>
      score di = 4 \<and> label di = MODERATE)"
proof -
  have k: "kpContribution (lastKp [kpSample 3, kpSample 3, kpSample 5]) = 3"
      "kpContribution (lastKp [kpSample 3]) = 1"
    by (simp_all add: kpContribution_def lastKp_def arrayAt_def orNum_def kpSample_def)
  have w: "windContribution (getAverage [windSample 500 5, windSample 500 5, windSample 500 5,
        windSample 500 5, windSample 500 5, windSample 500 5] speedKey 6) = 2"
      "windContribution (getAverage [windSample 400 5] speedKey 6) = 1"
    by (simp_all add: windContribution_def getAverage_def sliceLast_def orNum_def speedKey_def
        windSample_def)
  have a: "getAverage [flareSample ''1'' (1 / 10 ^ 7)] flareFluxKey 12 = 1 / 10 ^ 7"
      "getAverage [flareSample ''1'' (496 / 10 ^ 7)] flareFluxKey 12 = 496 / 10 ^ 7"
    by (simp_all add: getAverage_def sliceLast_def orNum_def flareFluxKey_def flareSample_def)
  have f: "flareContribution (classLetter (1 / 10 ^ 7)) (classMantissa (1 / 10 ^ 7)) = 0"
      "flareContribution (classLetter (496 / 10 ^ 7)) (classMantissa (496 / 10 ^ 7)) = 2"
    by (simp_all add: flareContribution_def classLetter_def classMantissa_def shownMantissa_def)
  have c: "classString (classLetter (496 / 10 ^ 7)) (classMantissa (496 / 10 ^ 7)) = ''M5.0''"
    by (simp add: classString_def classLetter_def classMantissa_def letterChar_def toFixed1_def
        showNat.simps digitChar_def)
  have first: "\<exists>di rep.
      analyzeData initialState (\<lambda>i. 0) [kpSample 3, kpSample 3, kpSample 5]
        [windSample 500 5, windSample 500 5, windSample 500 5,
         windSample 500 5, windSample 500 5, windSample 500 5]
        [flareSample ''1'' (1 / 10 ^ 7)] [protonSample 3] [] = Inr (di, rep) \<and>
      score di = 5 \<and> label di = HIGH"
    using danger_score_is_sum_of_contributions [of initialState "\<lambda>i. 0"
        "[kpSample 3, kpSample 3, kpSample 5]"
        "[windSample 500 5, windSample 500 5, windSample 500 5,
          windSample 500 5, windSample 500 5, windSample 500 5]"
        "[flareSample ''1'' (1 / 10 ^ 7)]" "[protonSample 3]" "[]"]
    unfolding k w a f by auto
  have second: "\<exists>di rep.
      analyzeData initialState (\<lambda>i. 0) [kpSample 3] [windSample 400 5]
        [flareSample ''1'' (496 / 10 ^ 7)] [] [] = Inr (di, rep) \<and>
      avgFlareClass [flareSample ''1'' (496 / 10 ^ 7)] = ''M5.0'' \<and>
      score di = 4 \<and> label di = MODERATE"
    using danger_score_is_sum_of_contributions [of initialState "\<lambda>i. 0"
        "[kpSample 3]" "[windSample 400 5]" "[flareSample ''1'' (496 / 10 ^ 7)]" "[]" "[]"]
    unfolding k w a f c by auto
  from first second show ?thesis by (rule conjI)
qed

text \<open>
  C5. With the other two inputs fixed, the score does not decrease when the last Kp
  grows, when the average wind speed grows, or when the flare class grows in severity:
  a later letter in the order A, B, C, M, X, or the same letter with a larger
  mantissa. The same holds along the flux that the class is computed from.
\<close>

theorem danger_score_monotone:
  "(k1 \<le> k2 \<longrightarrow> dangerScore k1 v cls \<le> dangerScore k2 v cls) \<and>
   (v1 \<le> v2 \<longrightarrow> dangerScore k v1 cls \<le> dangerScore k v2 cls) \<and>
   (0 \<le> m1 \<and> 0 \<le> m2 \<and> (letterRank l1 < letterRank l2 \<or> l1 = l2 \<and> m1 \<le> m2) \<longrightarrow>
      dangerScore k v (classString l1 m1) \<le> dangerScore k v (classString l2 m2)) \<and>
   (fl1 \<le> fl2 \<longrightarrow> dangerScore k v (getFlareClass fl1) \<le> dangerScore k v (getFlareClass fl2))"
proof -
  have a: "k1 \<le> k2 \<longrightarrow> dangerScore k1 v cls \<le> dangerScore k2 v cls"
    by (simp add: dangerScore_parts kpContribution_def)
  have b: "v1 \<le> v2 \<longrightarrow> dangerScore k v1 cls \<le> dangerScore k v2 cls"
    by (simp add: dangerScore_parts windContribution_def)
  have c: "0 \<le> m1 \<and> 0 \<le> m2 \<and> (letterRank l1 < letterRank l2 \<or> l1 = l2 \<and> m1 \<le> m2) \<longrightarrow>
      dangerScore k v (classString l1 m1) \<le> dangerScore k v (classString l2 m2)"
    using flareContribution_mono [of l1 l2 m1 m2]
    by (simp add: dangerScore_parts flarePart_classString)
  have d: "fl1 \<le> fl2 \<longrightarrow> dangerScore k v (getFlareClass fl1) \<le> dangerScore k v (getFlareClass fl2)"
    using flareContribution_flux_mono [of fl1 fl2]
    by (simp add: dangerScore_parts flarePart_getFlareClass)
  from a b c d show ?thesis by blast
qed

text \<open>
  The theorem at Kp 4 against 5, wind 450 against 550, class C9.9 against M1.0 and flux
  4e-5 against 6e-5: each step raises the score by one.
\<close>

theorem danger_score_monotone_witness:
  "(4::real) \<le> 5 \<and> dangerScore 4 450 ''C1.0'' \<le> dangerScore 5 450 ''C1.0'' \<and>
   (450::real) \<le> 550 \<and> dangerScore 4 450 ''C1.0'' \<le> dangerScore 4 550 ''C1.0'' \<and>
   letterRank LC < letterRank LM \<and>
   dangerScore 4 450 (classString LC (99 / 10)) \<le> dangerScore 4 450 (classString LM 1) \<and>
   (4 / 100000 :: real) \<le> 6 / 100000 \<and>
   dangerScore 4 450 (getFlareClass (4 / 100000)) \<le> dangerScore 4 450 (getFlareClass (6 / 100000))"
  using danger_score_monotone [of 4 5 450 "''C1.0''" 450 550 4 "99 / 10" 1 LC LM
      "4 / 100000" "6 / 100000"]
  by (simp add: letterRank_def)

section \<open>The forecast comparator and the Kp trend\<close>

text \<open>
  C6. For every snapshot the next forecast Kp is \<open>forecast[1].kp\<close> when the forecast
  has at least two entries and the current Kp otherwise. The third section of the
  report is then the sentence that activity will rise when the next Kp is above the
  last Kp, the sentence that it will stabilise or decline when the next Kp is below
  the last Kp and the last Kp is at least 4, and the sentence that no significant
  change is expected in every other case. The random number only chooses among the
  variants of the sentence.
\<close>

theorem forecast_comparator:
  "0 \<le> rnd 1 \<and> rnd 1 < 1 \<Longrightarrow>
     nextForecastKp fc (lastKp ks) = Inr (specNextKp fc ks) \<and>
     (\<exists>s1 s2 s3 s4.
        reportParts st rnd ks ws fs ps fc = Inr [s1, s2, s3, s4] \<and>
        isSentence (forecastVerdictOf (specNextKp fc ks) (lastKp ks)) s3 \<and>
        (\<forall>v. isSentence v s3 \<longrightarrow> v = forecastVerdictOf (specNextKp fc ks) (lastKp ks)))"
proof -
  assume r: "0 \<le> rnd 1 \<and> rnd 1 < 1"
  define s3 where "s3 = forecastText (rnd 1) (specNextKp fc ks) (lastKp ks)"
  have sent: "isSentence (forecastVerdictOf (specNextKp fc ks) (lastKp ks)) s3"
    unfolding s3_def using r by (intro forecastText_sentence) simp_all
  have only: "\<forall>v. isSentence v s3 \<longrightarrow> v = forecastVerdictOf (specNextKp fc ks) (lastKp ks)"
    using sent isSentence_unique by blast
  have parts: "reportParts st rnd ks ws fs ps fc =
          Inr [statusText (rnd 0) (lastKp ks) (trendDesc (lastKp ks) (prevKp ks)),
               dynText (windData st) (avgWind ws) (prevWind ws) (avgProton ps) (lastKp ks),
               s3, physText (protonData st) (avgFlareClass fs) (avgProton ps)]"
    by (simp add: reportParts_value s3_def)
  have "\<exists>s1 s2 s3 s4.
        reportParts st rnd ks ws fs ps fc = Inr [s1, s2, s3, s4] \<and>
        isSentence (forecastVerdictOf (specNextKp fc ks) (lastKp ks)) s3 \<and>
        (\<forall>v. isSentence v s3 \<longrightarrow> v = forecastVerdictOf (specNextKp fc ks) (lastKp ks))"
    using parts sent only by blast
  then show ?thesis
    using nextForecastKp_value [of fc ks] by (rule conjI [rotated])
qed

text \<open>
  The theorem at a snapshot with last Kp 5 and a forecast whose second entry is 3: the
  next Kp is 3 and the verdict is a decline; with a one-entry forecast the next Kp is
  the current 5.
\<close>

theorem forecast_comparator_witness:
  "(0::real) \<le> 0 \<and> (0::real) < 1 \<and>
   nextForecastKp [forecastSample 6, forecastSample 3] (lastKp [kpSample 5]) = Inr 3 \<and>
   forecastVerdictOf 3 (lastKp [kpSample 5]) = EXPECT_DECLINE \<and>
   specNextKp [forecastSample 6] [kpSample 5] = 5"
  using forecast_comparator [of "\<lambda>i. 0" "[forecastSample 6, forecastSample 3]" "[kpSample 5]"
      initialState "[]" "[]" "[]"]
  by (simp add: specNextKp_def forecastSample_def forecastVerdictOf_def lastKp_def
      arrayAt_def orNum_def kpSample_def)

text \<open>
  C9. The previous Kp is the kp of the second-to-last sample, and the current Kp when
  that sample is absent or its kp is 0. So a series whose second-to-last kp is 0 gets
  the stable trend phrase whatever its last kp is, and from a last kp of 3 on the
  status section of the report carries that phrase.
\<close>

theorem kp_trend_falsy_fallback:
  "prevKp ks =
     (case arrayAt ks (int (length ks) - 2) of
        None \<Rightarrow> lastKp ks
      | Some s \<Rightarrow> if KpDataPoint.kp s = 0 then lastKp ks else KpDataPoint.kp s) \<and>
   (2 \<le> length ks \<and> KpDataPoint.kp (ks ! (length ks - 2)) = 0 \<longrightarrow>
      trendDesc (lastKp ks) (prevKp ks) = TREND_STABLE \<and>
      (\<exists>s1 s2 s3 s4.
         reportParts st rnd ks ws fs ps fc = Inr [s1, s2, s3, s4] \<and>
         (3 \<le> lastKp ks \<longrightarrow> Lit TREND_STABLE \<in> set s1)))"
proof -
  have a: "prevKp ks =
     (case arrayAt ks (int (length ks) - 2) of
        None \<Rightarrow> lastKp ks
      | Some s \<Rightarrow> if KpDataPoint.kp s = 0 then lastKp ks else KpDataPoint.kp s)"
    by (simp add: prevKp_def orNum_def split: option.splits)
  have b: "trendDesc (lastKp ks) (prevKp ks) = TREND_STABLE"
    if h: "2 \<le> length ks \<and> KpDataPoint.kp (ks ! (length ks - 2)) = 0"
  proof -
    from h have l: "2 \<le> length ks" by simp
    then have n: "nat (int (length ks) - 2) = length ks - 2" by arith
    from l have "arrayAt ks (int (length ks) - 2) = Some (ks ! nat (int (length ks) - 2))"
      by (simp add: arrayAt_def)
    then have "arrayAt ks (int (length ks) - 2) = Some (ks ! (length ks - 2))"
      by (simp only: n)
    with h have "prevKp ks = lastKp ks"
      by (simp add: a)
    then show ?thesis
      by (simp add: trendDesc_def)
  qed
  have c: "3 \<le> lkp \<longrightarrow> Lit td \<in> set (statusText r lkp td)" for r lkp td
    by (simp add: statusText_def)
  have d: "2 \<le> length ks \<and> KpDataPoint.kp (ks ! (length ks - 2)) = 0 \<longrightarrow>
      trendDesc (lastKp ks) (prevKp ks) = TREND_STABLE \<and>
      (\<exists>s1 s2 s3 s4.
         reportParts st rnd ks ws fs ps fc = Inr [s1, s2, s3, s4] \<and>
         (3 \<le> lastKp ks \<longrightarrow> Lit TREND_STABLE \<in> set s1))"
  proof
    assume h: "2 \<le> length ks \<and> KpDataPoint.kp (ks ! (length ks - 2)) = 0"
    have t: "trendDesc (lastKp ks) (prevKp ks) = TREND_STABLE"
      by (rule b [OF h])
    have "3 \<le> lastKp ks \<longrightarrow> Lit TREND_STABLE \<in> set (statusText (rnd 0) (lastKp ks) TREND_STABLE)"
      by (rule c)
    with t show "trendDesc (lastKp ks) (prevKp ks) = TREND_STABLE \<and>
      (\<exists>s1 s2 s3 s4.
         reportParts st rnd ks ws fs ps fc = Inr [s1, s2, s3, s4] \<and>
         (3 \<le> lastKp ks \<longrightarrow> Lit TREND_STABLE \<in> set s1))"
      by (simp add: reportParts_value)
  qed
  from a d show ?thesis
    by (rule conjI)
qed

text \<open>
  The theorem at the series of kp 0 and then 5: the last value is strictly larger than
  the one before, and the trend phrase is the stable one.
\<close>

theorem kp_trend_falsy_fallback_witness:
  "(2::nat) \<le> length [kpSample 0, kpSample 5] \<and>
   KpDataPoint.kp ([kpSample 0, kpSample 5] ! (length [kpSample 0, kpSample 5] - 2)) = 0 \<and>
   KpDataPoint.kp ([kpSample 0, kpSample 5] ! (length [kpSample 0, kpSample 5] - 2))
     < lastKp [kpSample 0, kpSample 5] \<and>
   3 \<le> lastKp [kpSample 0, kpSample 5] \<and>
   trendDesc (lastKp [kpSample 0, kpSample 5]) (prevKp [kpSample 0, kpSample 5]) = TREND_STABLE"
  using kp_trend_falsy_fallback [of "[kpSample 0, kpSample 5]" initialState "\<lambda>i. 0" "[]" "[]" "[]" "[]"]
  by (simp add: lastKp_def prevKp_def trendDesc_def arrayAt_def orNum_def kpSample_def)

section \<open>The flare peak detector\<close>

text \<open>
  C2. For every flare series the detector returns, without raising, exactly the tagged
  interior samples whose flux is strictly above both neighbours and strictly above
  1e-8 (the same samples with the same multiplicities), ordered by descending time.
  Each is tagged significant exactly when its flux is at least 1e-6. A series of fewer
  than three samples gives the empty list, and every returned peak sits at an index
  that is neither the first nor the last.
\<close>

theorem detectFlares_interior_peaks:
  "\<exists>out.
     detectFlares ms fs = Inr out \<and>
     mset out = mset (interiorPeaks fs) \<and>
     mostRecentFirst ms out \<and>
     (length fs < 3 \<longrightarrow> out = []) \<and>
     (\<forall>p \<in> set out.
        (\<exists>i. 1 \<le> i \<and> i + 1 < length fs \<and> isPeakAt fs i \<and> p = tagFlare (fs ! i)) \<and>
        (isSignificant p \<longleftrightarrow> FlareDataPoint.flux p \<ge> 1 / 10 ^ 6))"
proof -
  define out where "out = sort_key (\<lambda>p. - ms (FlareDataPoint.time p)) (interiorPeaks fs)"
  have a: "detectFlares ms fs = Inr out"
    by (simp add: out_def detectFlares_value)
  have b: "mset out = mset (interiorPeaks fs)"
    by (simp add: out_def)
  have c: "mostRecentFirst ms out"
    unfolding out_def by (rule mostRecentFirst_sort)
  have d: "length fs < 3 \<longrightarrow> out = []"
    by (simp add: out_def interiorPeaks_short)
  have e: "\<forall>p \<in> set out.
        (\<exists>i. 1 \<le> i \<and> i + 1 < length fs \<and> isPeakAt fs i \<and> p = tagFlare (fs ! i)) \<and>
        (isSignificant p \<longleftrightarrow> FlareDataPoint.flux p \<ge> 1 / 10 ^ 6)"
  proof
    fix p
    assume "p \<in> set out"
    then have "p \<in> set (interiorPeaks fs)" by (simp add: out_def)
    then obtain i where i: "1 \<le> i \<and> i + 1 < length fs \<and> isPeakAt fs i" "p = tagFlare (fs ! i)"
      using interiorPeaks_member by blast
    from i(2) have "isSignificant p \<longleftrightarrow> FlareDataPoint.flux p \<ge> 1 / 10 ^ 6"
      by (simp add: tagFlare_def)
    with i show "(\<exists>i. 1 \<le> i \<and> i + 1 < length fs \<and> isPeakAt fs i \<and> p = tagFlare (fs ! i)) \<and>
        (isSignificant p \<longleftrightarrow> FlareDataPoint.flux p \<ge> 1 / 10 ^ 6)"
      by blast
  qed
  from a b c d e show ?thesis by blast
qed

text \<open>
  The theorem at five samples at minutes 1 to 5 with fluxes 1e-7, 1e-6, 1e-7, 5e-7 and
  1e-7: the peaks are the fourth sample and then the second, and only the second, whose
  flux is exactly 1e-6, is significant. At a two-sample series nothing is returned.
\<close>

theorem detectFlares_interior_peaks_witness:
  "detectFlares minuteClock
     [flareSample ''1'' (1 / 10 ^ 7), flareSample ''2'' (1 / 10 ^ 6), flareSample ''3'' (1 / 10 ^ 7),
      flareSample ''4'' (5 / 10 ^ 7), flareSample ''5'' (1 / 10 ^ 7)] =
     Inr [tagFlare (flareSample ''4'' (5 / 10 ^ 7)), tagFlare (flareSample ''2'' (1 / 10 ^ 6))] \<and>
   \<not> isSignificant (tagFlare (flareSample ''4'' (5 / 10 ^ 7))) \<and>
   isSignificant (tagFlare (flareSample ''2'' (1 / 10 ^ 6))) \<and>
   length [flareSample ''1'' (1 / 10 ^ 7), flareSample ''2'' (1 / 10 ^ 6)] < 3 \<and>
   detectFlares minuteClock [flareSample ''1'' (1 / 10 ^ 7), flareSample ''2'' (1 / 10 ^ 6)] = Inr []"
proof -
  have p: "interiorPeaks
     [flareSample ''1'' (1 / 10 ^ 7), flareSample ''2'' (1 / 10 ^ 6), flareSample ''3'' (1 / 10 ^ 7),
      flareSample ''4'' (5 / 10 ^ 7), flareSample ''5'' (1 / 10 ^ 7)] =
     [tagFlare (flareSample ''2'' (1 / 10 ^ 6)), tagFlare (flareSample ''4'' (5 / 10 ^ 7))]"
    by (simp add: interiorPeaks_def isPeakAt_def flareSample_def)
  have t: "minuteClock (FlareDataPoint.time (tagFlare (flareSample ''2'' v))) = 2"
      "minuteClock (FlareDataPoint.time (tagFlare (flareSample ''4'' v))) = 4" for v
    by (simp_all add: tagFlare_def flareSample_def minuteClock_def)
  have s: "\<not> isSignificant (tagFlare (flareSample ''4'' (5 / 10 ^ 7)))"
      "isSignificant (tagFlare (flareSample ''2'' (1 / 10 ^ 6)))"
    by (simp_all add: tagFlare_def flareSample_def)
  obtain out where out: "detectFlares minuteClock
     [flareSample ''1'' (1 / 10 ^ 7), flareSample ''2'' (1 / 10 ^ 6), flareSample ''3'' (1 / 10 ^ 7),
      flareSample ''4'' (5 / 10 ^ 7), flareSample ''5'' (1 / 10 ^ 7)] = Inr out"
    "mset out = mset [tagFlare (flareSample ''2'' (1 / 10 ^ 6)), tagFlare (flareSample ''4'' (5 / 10 ^ 7))]"
    "mostRecentFirst minuteClock out"
    using detectFlares_interior_peaks [of minuteClock
      "[flareSample ''1'' (1 / 10 ^ 7), flareSample ''2'' (1 / 10 ^ 6), flareSample ''3'' (1 / 10 ^ 7),
        flareSample ''4'' (5 / 10 ^ 7), flareSample ''5'' (1 / 10 ^ 7)]"]
    unfolding p by blast
  from out(2) have "length out = 2"
    using mset_eq_length by fastforce
  then obtain x y where xy: "out = [x, y]"
    by (cases out; cases "tl out") auto
  with out(2) have "(x = tagFlare (flareSample ''2'' (1 / 10 ^ 6)) \<and> y = tagFlare (flareSample ''4'' (5 / 10 ^ 7)))
      \<or> (x = tagFlare (flareSample ''4'' (5 / 10 ^ 7)) \<and> y = tagFlare (flareSample ''2'' (1 / 10 ^ 6)))"
    by (auto simp add: add_eq_conv_ex)
  with out(3) xy have "out = [tagFlare (flareSample ''4'' (5 / 10 ^ 7)), tagFlare (flareSample ''2'' (1 / 10 ^ 6))]"
    by (auto simp add: mostRecentFirst_def t)
  with out(1) have first: "detectFlares minuteClock
     [flareSample ''1'' (1 / 10 ^ 7), flareSample ''2'' (1 / 10 ^ 6), flareSample ''3'' (1 / 10 ^ 7),
      flareSample ''4'' (5 / 10 ^ 7), flareSample ''5'' (1 / 10 ^ 7)] =
     Inr [tagFlare (flareSample ''4'' (5 / 10 ^ 7)), tagFlare (flareSample ''2'' (1 / 10 ^ 6))]"
    by simp
  have second: "detectFlares minuteClock [flareSample ''1'' (1 / 10 ^ 7), flareSample ''2'' (1 / 10 ^ 6)] = Inr []"
    using detectFlares_interior_peaks [of minuteClock
      "[flareSample ''1'' (1 / 10 ^ 7), flareSample ''2'' (1 / 10 ^ 6)]"]
    by auto
  from first second s show ?thesis by simp
qed

section \<open>Source attribution\<close>

text \<open>
  C3, as amended. The two alert flags of the page are computed from the speed of the
  last wind sample being above 500 and the flux of the last proton sample being at
  least 10: both give the CME attribution, high wind alone the coronal-hole stream,
  anything else no attribution. The sentence of the report is chosen from other
  values: it is present when the 6-sample average wind speed is at least 500, and it
  names the CME when the 6-sample average proton flux is at least 10 and the
  coronal-hole stream otherwise. After a polling step both are computed from the
  series of the snapshot just fetched.
\<close>

theorem source_attribution_two_windows:
  "\<exists>st'.
     loadData ms rnd st result = Inr st' \<and>
     uiAttribution st' =
       attributionOf (lastWindSpeed (wind result) > 500)
         (lastProtonFlux (orEmpty (protons result)) \<ge> 10) \<and>
     narrativeAttribution (report st') =
       (if getAverage (wind result) speedKey 6 \<ge> 500
        then attributionOf True (getAverage (orEmpty (protons result)) protonFluxKey 6 \<ge> 10)
        else NO_ATTRIBUTION)"
  by (simp add: loadData_value uiAttribution_value analyzeData_value
      narrativeAttribution_report avgWind_def avgProton_def)

text \<open>
  The theorem at a snapshot of one wind sample of speed 600 and one proton sample of
  flux 50: flags and sentence both name the CME.
\<close>

theorem source_attribution_two_windows_witness:
  "\<exists>st'.
     loadData minuteClock (\<lambda>i. 0) initialState
       \<lparr>kp = [], wind = [windSample 600 5], flares = [], forecast = None,
        protons = Some [protonSample 50], isDemo = False\<rparr> = Inr st' \<and>
     getAverage [windSample 600 5] speedKey 6 \<ge> 500 \<and>
     uiAttribution st' = CME_ATTRIBUTED \<and>
     narrativeAttribution (report st') = CME_ATTRIBUTED"
proof -
  have w: "getAverage [windSample 600 5] speedKey 6 = 600"
    by (simp add: getAverage_def sliceLast_def orNum_def speedKey_def windSample_def)
  have p: "getAverage [protonSample 50] protonFluxKey 6 = 50"
    by (simp add: getAverage_def sliceLast_def orNum_def protonFluxKey_def protonSample_def)
  have l: "lastWindSpeed [windSample 600 5] = 600" "lastProtonFlux [protonSample 50] = 50"
    by (simp_all add: lastWindSpeed_def lastProtonFlux_def windSample_def protonSample_def)
  show ?thesis
    using source_attribution_two_windows [of minuteClock "\<lambda>i. 0" initialState
        "\<lparr>kp = [], wind = [windSample 600 5], flares = [], forecast = None,
          protons = Some [protonSample 50], isDemo = False\<rparr>"]
    by (simp add: orEmpty_def w p l attributionOf_def)
qed

text \<open>
  C3 as stated fails. Six wind samples, five of speed 700 and a last one of speed 100,
  and six proton samples, five of flux 0 and a last one of flux 30: the average wind
  speed is 600 and the current proton flux is 30, so the two booleans of the claim
  give the CME attribution. The flags of the page show no attribution, since the last
  wind sample is slow, and the report names the coronal-hole stream, since the average
  proton flux is 5. And at a single wind sample of speed exactly 500 with no proton
  sample the claim gives no attribution, since 500 is not above 500, while the report
  names the coronal-hole stream.
\<close>

theorem source_attribution_counterexample:
  "specAttribution
     [windSample 700 5, windSample 700 5, windSample 700 5,
      windSample 700 5, windSample 700 5, windSample 100 5]
     [protonSample 0, protonSample 0, protonSample 0,
      protonSample 0, protonSample 0, protonSample 30] = CME_ATTRIBUTED \<and>
   (case loadData minuteClock (\<lambda>i. 0) initialState
           \<lparr>kp = [],
            wind = [windSample 700 5, windSample 700 5, windSample 700 5,
                    windSample 700 5, windSample 700 5, windSample 100 5],
            flares = [], forecast = None,
            protons = Some [protonSample 0, protonSample 0, protonSample 0,
                            protonSample 0, protonSample 0, protonSample 30],
            isDemo = False\<rparr> of
      Inl e \<Rightarrow> False
    | Inr st' \<Rightarrow>
        uiAttribution st' = NO_ATTRIBUTION \<and>
        narrativeAttribution (report st') = CORONAL_HOLE_STREAM) \<and>
   specAttribution [windSample 500 5] [] = NO_ATTRIBUTION \<and>
   (case loadData minuteClock (\<lambda>i. 0) initialState
           \<lparr>kp = [], wind = [windSample 500 5], flares = [], forecast = None,
            protons = None, isDemo = False\<rparr> of
      Inl e \<Rightarrow> False
    | Inr st' \<Rightarrow> narrativeAttribution (report st') = CORONAL_HOLE_STREAM)"
proof -
  have w: "getAverage [windSample 700 5, windSample 700 5, windSample 700 5,
      windSample 700 5, windSample 700 5, windSample 100 5] speedKey 6 = 600"
    by (simp add: getAverage_def sliceLast_def orNum_def speedKey_def windSample_def)
  have p: "getAverage [protonSample 0, protonSample 0, protonSample 0,
      protonSample 0, protonSample 0, protonSample 30] protonFluxKey 6 = 5"
    by (simp add: getAverage_def sliceLast_def orNum_def protonFluxKey_def protonSample_def)
  have l: "lastWindSpeed [windSample 700 5, windSample 700 5, windSample 700 5,
      windSample 700 5, windSample 700 5, windSample 100 5] = 100"
    "lastProtonFlux [protonSample 0, protonSample 0, protonSample 0,
      protonSample 0, protonSample 0, protonSample 30] = 30"
    by (simp_all add: lastWindSpeed_def lastProtonFlux_def windSample_def protonSample_def)
  have w': "getAverage [windSample 500 5] speedKey 6 = 500"
    by (simp add: getAverage_def sliceLast_def orNum_def speedKey_def windSample_def)
  have p': "getAverage ([] :: ProtonDataPoint list) protonFluxKey 6 = 0" "lastProtonFlux [] = 0"
    by (simp_all add: getAverage_def lastProtonFlux_def)
  show ?thesis
    by (simp add: specAttribution_def loadData_value uiAttribution_value analyzeData_value
        narrativeAttribution_report avgWind_def avgProton_def orEmpty_def w p l w' p'
        attributionOf_def)
qed

section \<open>Totality and dependence on the component state\<close>

text \<open>
  C8. For every snapshot, whatever series are empty or absent, a polling step returns a
  state and does not raise: the report is four sections joined by the separator and
  the danger index is set. An empty series averages to 0 and an empty Kp series has a
  last Kp of 0; fewer than three flare samples give no detected peak; a forecast of at
  most one entry makes the next Kp the current Kp; without a flare sample the average
  class and the current class are A0.0, which adds nothing to the score.
\<close>

theorem analysis_is_total:
  "\<exists>st'.
     loadData ms rnd st result = Inr st' \<and>
     (\<exists>s1 s2 s3 s4. report st' = s1 @ [Lit PARA] @ s2 @ [Lit PARA] @ s3 @ [Lit PARA] @ s4 \<and>
        s1 \<noteq> [] \<and> s2 \<noteq> [] \<and> s3 \<noteq> [] \<and> s4 \<noteq> []) \<and>
     label (dangerIndex st') = labelFor (score (dangerIndex st')) \<and>
     lastKp [] = 0 \<and> avgWind [] = 0 \<and> avgFlux [] = 0 \<and> avgProton [] = 0 \<and>
     (length (flares result) < 3 \<longrightarrow> detectedFlares st' = []) \<and>
     (length (orEmpty (forecast result)) \<le> 1 \<longrightarrow>
        nextForecastKp (orEmpty (forecast result)) (lastKp (FetchResult.kp result))
          = Inr (lastKp (FetchResult.kp result))) \<and>
     (flares result = [] \<longrightarrow>
        avgFlareClass (flares result) = ''A0.0'' \<and> currentFlareClass st' = ''A0.0'' \<and>
        flarePart (avgFlareClass (flares result)) = 0)"
proof -
  define st' where "st' = projr (loadData ms rnd st result)"
  have a: "loadData ms rnd st result = Inr st'"
    by (simp add: st'_def loadData_value)
  have ne: "statusText r lkp td \<noteq> []" "dynText wd aw pw ap lkp \<noteq> []"
      "forecastText r nf lkp \<noteq> []" "physText pd cls ap \<noteq> []" for r lkp td wd aw pw ap nf pd cls
    by (simp_all add: statusText_def dynText_def forecastText_def physText_def)
  have "report st' =
          statusText (rnd 0) (lastKp (FetchResult.kp result))
            (trendDesc (lastKp (FetchResult.kp result)) (prevKp (FetchResult.kp result))) @ [Lit PARA] @
          dynText (windData st) (avgWind (wind result)) (prevWind (wind result))
            (avgProton (orEmpty (protons result))) (lastKp (FetchResult.kp result)) @ [Lit PARA] @
          forecastText (rnd 1) (specNextKp (orEmpty (forecast result)) (FetchResult.kp result))
            (lastKp (FetchResult.kp result)) @ [Lit PARA] @
          physText (protonData st) (avgFlareClass (flares result)) (avgProton (orEmpty (protons result)))"
    by (simp add: st'_def loadData_value analyzeData_value)
  then have b: "\<exists>s1 s2 s3 s4. report st' = s1 @ [Lit PARA] @ s2 @ [Lit PARA] @ s3 @ [Lit PARA] @ s4 \<and>
        s1 \<noteq> [] \<and> s2 \<noteq> [] \<and> s3 \<noteq> [] \<and> s4 \<noteq> []"
    using ne by blast
  have c: "label (dangerIndex st') = labelFor (score (dangerIndex st'))"
    by (simp add: st'_def loadData_value analyzeData_value dangerIndexOf_fields)
  have d: "lastKp [] = 0 \<and> avgWind [] = 0 \<and> avgFlux [] = 0 \<and> avgProton [] = 0"
    by (simp add: lastKp_def arrayAt_def orNum_def avgWind_def avgFlux_def avgProton_def
        getAverage_def)
  have e: "length (flares result) < 3 \<longrightarrow> detectedFlares st' = []"
    by (simp add: st'_def loadData_value interiorPeaks_short)
  have f: "length (orEmpty (forecast result)) \<le> 1 \<longrightarrow>
        nextForecastKp (orEmpty (forecast result)) (lastKp (FetchResult.kp result))
          = Inr (lastKp (FetchResult.kp result))"
    by (simp add: nextForecastKp_def)
  have "getFlareClass 0 = ''A0.0''"
    by (simp add: getFlareClass_def classString_def classLetter_def classMantissa_def
        letterChar_def toFixed1_def showNat.simps digitChar_def)
  moreover have "flarePart ''A0.0'' = 0"
    by (simp add: flarePart_def strIncludes_def)
  moreover have "flares result = [] \<longrightarrow> currentFlareClass st' = ''A0.0''"
    by (simp add: st'_def loadData_value currentFlareClass_def arrayAt_def)
  ultimately have g: "flares result = [] \<longrightarrow>
        avgFlareClass (flares result) = ''A0.0'' \<and> currentFlareClass st' = ''A0.0'' \<and>
        flarePart (avgFlareClass (flares result)) = 0"
    by (simp add: avgFlareClass_def avgFlux_def getAverage_def)
  from a b c d e f g show ?thesis by blast
qed

text \<open>
  The theorem at the snapshot whose series are all empty or absent, from the initial
  state: the score is 0, the label is BACKGROUND, no flare is detected and the report
  is the calm one.
\<close>

theorem analysis_is_total_witness:
  "\<exists>st'.
     loadData minuteClock (\<lambda>i. 0) initialState
       \<lparr>kp = [], wind = [], flares = [], forecast = None, protons = None, isDemo = True\<rparr>
       = Inr st' \<and>
     length (flares \<lparr>kp = [], wind = [], flares = [], forecast = None, protons = None,
                       isDemo = True\<rparr>) < 3 \<and>
     detectedFlares st' = [] \<and>
     score (dangerIndex st') = 0 \<and> label (dangerIndex st') = BACKGROUND \<and>
     report st' =
       [Lit ST_CALM_HEAD, Lit ST_CALM_A, Lit ST_CALM_TAIL, Lit PARA,
        Lit DYN_BG_PRE, Dyn ''0'', Lit DYN_BG_MID, Dyn ''undefined'', Lit DYN_BG_POST,
        Lit WIND_STABLE, Lit PARA,
        Lit FC_NOCHANGE, Lit PARA,
        Lit PHYS_BG]"
proof -
  have cls: "avgFlareClass [] = ''A0.0''"
    by (simp add: avgFlareClass_def avgFlux_def getAverage_def getFlareClass_def classString_def
        classLetter_def classMantissa_def letterChar_def toFixed1_def showNat.simps digitChar_def)
  have z: "lastKp [] = 0" "prevKp [] = 0" "avgWind [] = 0" "prevWind [] = 0" "avgProton [] = 0"
      "specNextKp [] [] = 0"
    by (simp_all add: lastKp_def prevKp_def arrayAt_def orNum_def avgWind_def prevWind_def
        avgProton_def getAverage_def sliceDropLast_def specNextKp_def)
  have s1: "statusText 0 0 (trendDesc 0 0) = [Lit ST_CALM_HEAD, Lit ST_CALM_A, Lit ST_CALM_TAIL]"
    by (simp add: statusText_def pick_def arrayAt_def)
  have s2: "dynText [] 0 0 0 0 =
      [Lit DYN_BG_PRE, Dyn ''0'', Lit DYN_BG_MID, Dyn ''undefined'', Lit DYN_BG_POST, Lit WIND_STABLE]"
    by (simp add: dynText_def windTrend_def arrayAt_def showInt_def mathRound_def showNat.simps
        digitChar_def)
  have s3: "forecastText 0 0 0 = [Lit FC_NOCHANGE]"
    by (simp add: forecastText_def)
  have s4: "physText [] ''A0.0'' 0 = [Lit PHYS_BG]"
    by (simp add: physText_def strIncludes_def)
  have sc: "dangerScore 0 0 ''A0.0'' = 0"
    by (simp add: dangerScore_parts kpContribution_def windContribution_def flarePart_def
        strIncludes_def)
  show ?thesis
    using analysis_is_total [of minuteClock "\<lambda>i. 0" initialState
        "\<lparr>kp = [], wind = [], flares = [], forecast = None, protons = None, isDemo = True\<rparr>"]
    by (simp add: loadData_value analyzeData_value orEmpty_def z cls s1 s2 s3 s4 sc
        dangerIndexOf_def initialState_def interiorPeaks_def)
qed

text \<open>
  C7 fails on the code. Two polling steps on the same snapshot with the same random
  numbers: the first runs in the closure of the initial render, whose wind state is
  empty, the second in the closure of the render after it, as a press on the refresh
  button does. The danger index is the same, the reports differ: the density in the
  dynamics section is read from the state variable windData (line 258), not from the
  snapshot, and prints as undefined in the first run and as 7.3 in the second.
\<close>

theorem report_reads_component_state:
  "(case loadData minuteClock (\<lambda>i. 0) initialState
           \<lparr>kp = [kpSample 2], wind = [windSample 380 (73 / 10)], flares = [],
            forecast = None, protons = None, isDemo = False\<rparr> of
      Inl e \<Rightarrow> False
    | Inr st1 \<Rightarrow>
        (case loadData minuteClock (\<lambda>i. 0) st1
                \<lparr>kp = [kpSample 2], wind = [windSample 380 (73 / 10)], flares = [],
                 forecast = None, protons = None, isDemo = False\<rparr> of
           Inl e \<Rightarrow> False
         | Inr st2 \<Rightarrow>
             dangerIndex st1 = dangerIndex st2 \<and>
             report st1 =
               [Lit ST_CALM_HEAD, Lit ST_CALM_A, Lit ST_CALM_TAIL, Lit PARA,
                Lit DYN_BG_PRE, Dyn ''380'', Lit DYN_BG_MID, Dyn ''undefined'', Lit DYN_BG_POST,
                Lit WIND_STABLE, Lit PARA,
                Lit FC_NOCHANGE, Lit PARA,
                Lit PHYS_BG] \<and>
             report st2 =
               [Lit ST_CALM_HEAD, Lit ST_CALM_A, Lit ST_CALM_TAIL, Lit PARA,
                Lit DYN_BG_PRE, Dyn ''380'', Lit DYN_BG_MID, Dyn ''7.3'', Lit DYN_BG_POST,
                Lit WIND_STABLE, Lit PARA,
                Lit FC_NOCHANGE, Lit PARA,
                Lit PHYS_BG] \<and>
             report st1 \<noteq> report st2))"
proof -
  have cls: "avgFlareClass [] = ''A0.0''"
    by (simp add: avgFlareClass_def avgFlux_def getAverage_def getFlareClass_def classString_def
        classLetter_def classMantissa_def letterChar_def toFixed1_def showNat.simps digitChar_def)
  have z: "lastKp [kpSample 2] = 2" "prevKp [kpSample 2] = 2"
      "avgWind [windSample 380 (73 / 10)] = 380" "prevWind [windSample 380 (73 / 10)] = 380"
      "avgProton [] = 0" "specNextKp [] [kpSample 2] = 2"
    by (simp_all add: lastKp_def prevKp_def arrayAt_def orNum_def avgWind_def prevWind_def
        avgProton_def getAverage_def sliceLast_def sliceDropLast_def specNextKp_def
        speedKey_def kpSample_def windSample_def)
  have s1: "statusText 0 2 (trendDesc 2 2) = [Lit ST_CALM_HEAD, Lit ST_CALM_A, Lit ST_CALM_TAIL]"
    by (simp add: statusText_def pick_def arrayAt_def)
  have n: "showInt (mathRound 380) = ''380''"
    by (simp add: showInt_def mathRound_def showNat.simps digitChar_def)
  have s2a: "dynText [] 380 380 0 2 =
      [Lit DYN_BG_PRE, Dyn ''380'', Lit DYN_BG_MID, Dyn ''undefined'', Lit DYN_BG_POST,
       Lit WIND_STABLE]"
    by (simp add: dynText_def windTrend_def arrayAt_def n)
  have s2b: "dynText [windSample 380 (73 / 10)] 380 380 0 2 =
      [Lit DYN_BG_PRE, Dyn ''380'', Lit DYN_BG_MID, Dyn ''7.3'', Lit DYN_BG_POST,
       Lit WIND_STABLE]"
    by (simp add: dynText_def windTrend_def arrayAt_def n windSample_def toFixed1_def
        showNat.simps digitChar_def)
  have s3: "forecastText 0 2 2 = [Lit FC_NOCHANGE]"
    by (simp add: forecastText_def)
  have s4: "physText [] ''A0.0'' 0 = [Lit PHYS_BG]"
    by (simp add: physText_def strIncludes_def)
  show ?thesis
    by (simp add: loadData_value analyzeData_value orEmpty_def z cls s1 s2a s2b s3 s4
        initialState_def)
qed

end
